theory Spec2Isabelle
  imports Main "HOL-Library.Word"
begin

section \<open>The dump example's filesystem walker: \<open>examples/dump/filesystem.cpp\<close>\<close>

text \<open>
  The file has two functions. \<open>DumpFile\<close> sniffs one file in stages and hands an
  accepted buffer to the PE dumper; \<open>DumpDir\<close> walks a directory, recurses into
  sub-directories and queues one \<open>DumpFile\<close> task per file on a thread pool.

  Both talk to the outside only: the file stream, the Win32 directory listing, the
  attribute queries, the thread pool and the PE library. The embedding takes the
  answers of those services as parameters (a record of results per call site) and
  returns what the function does with them: the sequence of calls and reports it makes,
  in order, and how it leaves (by returning or by throwing).

  The diagnostic sink (\<open>GetOutputStreamW\<close>, \<open>WriteNewline\<close>, \<open>WriteNormal\<close>, the
  writes to \<open>std::cerr\<close>) and the pool's two operations are taken not to throw.
\<close>

subsection \<open>Paths, error codes, exceptions\<close>

type_synonym path = string
type_synonym dword = "32 word"
type_synonym streampos = "64 word"

text \<open>The two characters of \<open>std::wstring\<close> literals that a HOL string literal cannot hold.\<close>

definition backslash :: string where
  "backslash = [CHR 0x5C]"

definition dquote :: string where
  "dquote = [CHR 0x22]"

text \<open>The Win32 error codes the walker compares against, with their \<open>winerror.h\<close> values.\<close>

definition ERROR_FILE_NOT_FOUND :: dword where
  "ERROR_FILE_NOT_FOUND = 2"

definition ERROR_ACCESS_DENIED :: dword where
  "ERROR_ACCESS_DENIED = 5"

definition ERROR_NO_MORE_FILES :: dword where
  "ERROR_NO_MORE_FILES = 18"

definition ERROR_SHARING_VIOLATION :: dword where
  "ERROR_SHARING_VIOLATION = 32"

text \<open>
  The exceptions the handlers of the file tell apart: \<open>std::bad_alloc\<close>,
  \<open>hadesmem::Error\<close> with its optional \<open>ErrorCodeWinLast\<close>, any other exception
  derived from \<open>std::exception\<close>, and an exception of any other type, which only
  \<open>catch (...)\<close> catches.
\<close>

datatype exn =
    bad_alloc
  | Error "dword option"
  | std_exception
  | other_exception

fun is_std_exception :: "exn \<Rightarrow> bool" where
  "is_std_exception bad_alloc = True"
| "is_std_exception (Error c) = True"
| "is_std_exception std_exception = True"
| "is_std_exception other_exception = False"

text \<open>
  How a function leaves: by returning, or by throwing. \<open>Undefined\<close> stands for the one
  place where the C++ has no defined behaviour: \<open>path_real.back()\<close> on an empty path.
\<close>

datatype outcome =
    Returned
  | Threw exn
  | Undefined

subsection \<open>Events\<close>

text \<open>
  What the two functions do, in order: the lines they write, the calls they make on the
  stream, the PE library and the pool, and what the outermost handler writes to
  \<open>std::cerr\<close>. \<open>ReadMz\<close> is the two-byte read into \<open>mz_buf\<close>, \<open>ReadBuf n\<close> the
  read of \<open>n\<close> bytes into \<open>buf\<close>, \<open>Resize n\<close> is \<open>buf.resize(n)\<close>.
\<close>

datatype event =
    WriteNewline
  | WriteNormal string
  | SetCurrentFilePath path
  | OpenFile path
  | Tellg
  | Seekg
  | ReadMz
  | Resize nat
  | ReadBuf nat
  | WarnForCurrentFile
  | NewProcess
  | NewPeFile nat
  | NewNtHeaders
  | DumpPeFile path
  | CerrError exn
  | CerrCurrentFile path
  | WaitForSlot
  | QueueTask path bool

text \<open>\<open>WriteNewline(out); WriteNormal(out, msg, 0);\<close>\<close>

definition report :: "string \<Rightarrow> event list" where
  "report msg = [WriteNewline, WriteNormal msg]"

subsection \<open>\<open>DumpFile\<close>\<close>

text \<open>
  The answers of the services \<open>DumpFile\<close> calls, one field per call site:
  \<^item> \<open>OpenFile_result\<close>: \<open>OpenFile\<close> throws, or returns a stream that tests true or false;
  \<^item> \<open>tellg_result\<close>: the position \<open>tellg\<close> returns on the stream opened at its end
    (a signed 64-bit offset, \<open>-1\<close> on failure);
  \<^item> \<open>seekg1_result\<close>, \<open>seekg2_result\<close>: whether the stream tests true after each seek;
  \<^item> \<open>read_mz_result\<close>: the two characters read, or \<open>None\<close> when the read fails;
  \<^item> \<open>resize_result\<close>: what \<open>buf.resize\<close> throws, if anything;
  \<^item> \<open>read_buf_result\<close>: whether the full read succeeds;
  \<^item> \<open>Process_result\<close>, \<open>PeFile_result\<close>, \<open>NtHeaders_result\<close>, \<open>DumpPeFile_result\<close>:
    what the constructor or call throws, if anything.
\<close>

record file_io =
  OpenFile_result :: "exn + bool"
  tellg_result :: streampos
  seekg1_result :: bool
  read_mz_result :: "(char \<times> char) option"
  seekg2_result :: bool
  resize_result :: "exn option"
  read_buf_result :: bool
  Process_result :: "exn option"
  PeFile_result :: "exn option"
  NtHeaders_result :: "exn option"
  DumpPeFile_result :: "exn option"

text \<open>The process-wide state: the path \<open>SetCurrentFilePath\<close> stores.\<close>

record globals =
  current_file_path :: path

text \<open>
  The body of the outer \<open>try\<close> block, from the call of \<open>OpenFile\<close> on: the events up to
  the point where the block is left, and the exception that leaves it, if any.
  Lines 106 to 124: the \<open>Process\<close> and \<open>PeFile\<close> constructors and \<open>DumpPeFile\<close> are
  outside the inner \<open>try\<close>; only the \<open>NtHeaders\<close> constructor is inside it, and its
  handler takes \<open>std::exception const&\<close>.
\<close>

definition DumpFile_pe :: "file_io \<Rightarrow> path \<Rightarrow> nat \<Rightarrow> event list \<times> exn option" where
  "DumpFile_pe io path n =
     (case Process_result io of
        Some e \<Rightarrow> ([NewProcess], Some e)
      | None \<Rightarrow>
         (case PeFile_result io of
            Some e \<Rightarrow> ([NewProcess, NewPeFile n], Some e)
          | None \<Rightarrow>
             (case NtHeaders_result io of
                Some e \<Rightarrow>
                  if is_std_exception e
                  then ([NewProcess, NewPeFile n, NewNtHeaders]
                          @ report ''Not a PE file or wrong architecture (Pass 2).'', None)
                  else ([NewProcess, NewPeFile n, NewNtHeaders], Some e)
              | None \<Rightarrow>
                 ([NewProcess, NewPeFile n, NewNtHeaders, DumpPeFile path],
                  DumpPeFile_result io))))"

definition DumpFile_try :: "file_io \<Rightarrow> path \<Rightarrow> event list \<times> exn option" where
  "DumpFile_try io path =
     (case OpenFile_result io of
        Inl e \<Rightarrow> ([OpenFile path], Some e)
      | Inr good \<Rightarrow>
          if \<not> good then ([OpenFile path] @ report ''Failed to open file.'', None)
          else
            let sz = tellg_result io in
            if sint sz \<le> 0
            then ([OpenFile path, Tellg] @ report ''Empty or invalid file.'', None)
            else if (ucast (ucast sz :: dword) :: streampos) \<noteq> sz
            then ([OpenFile path, Tellg] @ report ''File too large to be a valid PE.'', None)
            else if \<not> seekg1_result io
            then ([OpenFile path, Tellg, Seekg]
                    @ report ''WARNING! Seeking to beginning of file failed (1).'', None)
            else
              (case read_mz_result io of
                 None \<Rightarrow>
                   ([OpenFile path, Tellg, Seekg, ReadMz]
                      @ report ''WARNING! Failed to read header signature.'', None)
               | Some (mz0, mz1) \<Rightarrow>
                   if mz0 \<noteq> CHR ''M'' \<or> mz1 \<noteq> CHR ''Z''
                   then ([OpenFile path, Tellg, Seekg, ReadMz]
                           @ report ''Not a PE file (Pass 1).'', None)
                   else if \<not> seekg2_result io
                   then ([OpenFile path, Tellg, Seekg, ReadMz, Seekg]
                           @ report ''WARNING! Seeking to beginning of file failed (2).'', None)
                   else
                     (case resize_result io of
                        Some e \<Rightarrow>
                          if e = bad_alloc
                          then ([OpenFile path, Tellg, Seekg, ReadMz, Seekg, Resize (unat sz)]
                                  @ report ''WARNING! File too large.'' @ [WarnForCurrentFile],
                                None)
                          else ([OpenFile path, Tellg, Seekg, ReadMz, Seekg, Resize (unat sz)],
                                Some e)
                      | None \<Rightarrow>
                          if \<not> read_buf_result io
                          then ([OpenFile path, Tellg, Seekg, ReadMz, Seekg, Resize (unat sz),
                                 ReadBuf (unat sz)]
                                  @ report ''WARNING! Failed to read file data.'', None)
                          else
                            (case DumpFile_pe io path (unat sz) of
                               (ev, thrown) \<Rightarrow>
                                 ([OpenFile path, Tellg, Seekg, ReadMz, Seekg, Resize (unat sz),
                                   ReadBuf (unat sz)] @ ev, thrown)))))"

text \<open>
  \<open>DumpFile\<close>: \<open>SetCurrentFilePath(path)\<close>, the \<open>try\<close> block, and the handler
  \<open>catch (...)\<close>, which writes the diagnostic to \<open>std::cerr\<close> and then the current
  file path when that is not empty. The handler catches everything and does not rethrow.
\<close>

definition DumpFile :: "file_io \<Rightarrow> path \<Rightarrow> globals \<Rightarrow> event list \<times> globals \<times> outcome" where
  "DumpFile io path g =
     (let g1 = g\<lparr>current_file_path := path\<rparr> in
      case DumpFile_try io path of
        (ev, None) \<Rightarrow> (SetCurrentFilePath path # ev, g1, Returned)
      | (ev, Some e) \<Rightarrow>
          (let current = current_file_path g1 in
           (SetCurrentFilePath path # ev @ [CerrError e]
              @ (if current \<noteq> [] then [CerrCurrentFile current] else []),
            g1, Returned)))"

text \<open>
  The rejection reasons of the specification (its \<open>SniffResult\<close>, section 3), and the
  reason its section 4.1 attaches to a failure of each stage, read onto the line that
  \<open>DumpFile\<close> writes when it gives a file up at that stage. The specification names
  no reason for a line that is not listed here.
\<close>

datatype reason =
    EmptyOrUnreadable
  | TooLarge
  | NoMagicSignature
  | AllocationFailed
  | TruncatedRead
  | StructurallyInvalid

definition spec_reason :: "string \<Rightarrow> reason option" where
  "spec_reason msg =
     (if msg = ''Failed to open file.'' then Some EmptyOrUnreadable
      else if msg = ''Empty or invalid file.'' then Some EmptyOrUnreadable
      else if msg = ''File too large to be a valid PE.'' then Some TooLarge
      else if msg = ''WARNING! Failed to read header signature.'' then Some TruncatedRead
      else if msg = ''Not a PE file (Pass 1).'' then Some NoMagicSignature
      else if msg = ''WARNING! File too large.'' then Some AllocationFailed
      else if msg = ''WARNING! Failed to read file data.'' then Some TruncatedRead
      else if msg = ''Not a PE file or wrong architecture (Pass 2).'' then Some StructurallyInvalid
      else None)"

text \<open>The lines a run wrote with \<open>WriteNormal\<close>, and the reason of the last one.\<close>

fun lines_written :: "event list \<Rightarrow> string list" where
  "lines_written [] = []"
| "lines_written (WriteNormal msg # ev) = msg # lines_written ev"
| "lines_written (e # ev) = lines_written ev"

definition rejection :: "event list \<Rightarrow> reason option" where
  "rejection ev = (case lines_written ev of [] \<Rightarrow> None | ls \<Rightarrow> spec_reason (last ls))"

text \<open>
  A file for the examples: it opens, is 4096 bytes long, starts with \<open>MZ\<close>, and every
  later step succeeds. The other example files differ from it in one answer.
\<close>

definition io_pe :: file_io where
  "io_pe = \<lparr> OpenFile_result = Inr True, tellg_result = 4096, seekg1_result = True,
             read_mz_result = Some (CHR ''M'', CHR ''Z''), seekg2_result = True,
             resize_result = None, read_buf_result = True, Process_result = None,
             PeFile_result = None, NtHeaders_result = None, DumpPeFile_result = None \<rparr>"

definition g0 :: globals where
  "g0 = \<lparr> current_file_path = [] \<rparr>"

subsection \<open>\<open>DumpDir\<close>\<close>

text \<open>
  The answers of the services \<open>DumpDir\<close> calls:
  \<^item> \<open>FindFiles pattern\<close>: the listing \<open>FindFirstFileW\<close> and \<open>FindNextFileW\<close> give for
    the pattern. \<open>Inl code\<close>: \<open>FindFirstFileW\<close> returns an invalid handle and
    \<open>GetLastError\<close> gives \<open>code\<close>. \<open>Inr (first, rest, code)\<close>: \<open>FindFirstFileW\<close>
    gives the entry \<open>first\<close>, the following calls of \<open>FindNextFileW\<close> give the
    entries \<open>rest\<close> and then fail, and \<open>GetLastError\<close> gives \<open>code\<close> after that;
  \<^item> \<open>IsDirectory\<close>, \<open>IsSymlink\<close>: the answer of the attribute query, or what it throws;
  \<^item> \<open>MakeExtendedPath\<close>: the library's path rewriting, a function of the path;
  \<^item> \<open>QueueTask_result k\<close>: what the \<open>k\<close>-th call of \<open>pool.QueueTask\<close> returns, counting
    from 0 over the life of the pool. The walker's state is the number of calls made so far.
\<close>

record os =
  FindFiles :: "path \<Rightarrow> dword + (path \<times> path list \<times> dword)"
  IsDirectory :: "path \<Rightarrow> exn + bool"
  IsSymlink :: "path \<Rightarrow> exn + bool"
  MakeExtendedPath :: "path \<Rightarrow> path"
  QueueTask_result :: "nat \<Rightarrow> bool"

text \<open>
  The result of a walk: \<open>None\<close> when it does not come back within the fuel given,
  otherwise the events, the number of \<open>QueueTask\<close> calls made so far, and how it left.
\<close>

type_synonym result = "(event list \<times> nat \<times> outcome) option"

definition after :: "event list \<Rightarrow> result \<Rightarrow> result" where
  "after ev r = (case r of None \<Rightarrow> None | Some (ev', n, out) \<Rightarrow> Some (ev @ ev', n, out))"

text \<open>
  Lines 210 to 213, \<open>do { pool.WaitForSlot(); } while (!pool.QueueTask(task));\<close>.
  The task captures \<open>cur_path\<close> and nothing else, so the path stands for it.
  Each round of the loop costs one unit of fuel.
\<close>

fun QueueLoop :: "nat \<Rightarrow> os \<Rightarrow> path \<Rightarrow> nat \<Rightarrow> result" where
  "QueueLoop 0 os task n = None"
| "QueueLoop (Suc fuel) os task n =
     (if QueueTask_result os n
      then Some ([WaitForSlot, QueueTask task True], Suc n, Returned)
      else after [WaitForSlot, QueueTask task False] (QueueLoop fuel os task (Suc n)))"

text \<open>
  Lines 191 to 214, the body of the \<open>try\<close> block of one entry. \<open>walk\<close> is the recursive
  call of \<open>DumpDir\<close>.
\<close>

definition DumpEntry_try :: "(path \<Rightarrow> nat \<Rightarrow> result) \<Rightarrow> nat \<Rightarrow> os \<Rightarrow> path \<Rightarrow> nat \<Rightarrow> result" where
  "DumpEntry_try walk fuel os cur_path n =
     (case IsDirectory os cur_path of
        Inl e \<Rightarrow> Some ([], n, Threw e)
      | Inr True \<Rightarrow>
          (case IsSymlink os cur_path of
             Inl e \<Rightarrow> Some ([], n, Threw e)
           | Inr True \<Rightarrow> Some (report ''Skipping symlink.'', n, Returned)
           | Inr False \<Rightarrow> walk cur_path n)
      | Inr False \<Rightarrow> QueueLoop fuel os cur_path n)"

text \<open>
  Lines 216 to 242, \<open>catch (hadesmem::Error const& e)\<close>: what the handler makes of an
  exception \<open>e\<close> that left the \<open>try\<close> block after the events \<open>ev\<close>. An exception that
  is not a \<open>hadesmem::Error\<close> is not caught; an \<open>Error\<close> without one of the three codes
  is thrown again.
\<close>

definition DumpEntry_catch :: "event list \<Rightarrow> nat \<Rightarrow> exn \<Rightarrow> event list \<times> nat \<times> outcome" where
  "DumpEntry_catch ev n e =
     (case e of
        Error last_error \<Rightarrow>
          if last_error = Some ERROR_SHARING_VIOLATION
          then (ev @ report ''Sharing violation.'', n, Returned)
          else if last_error = Some ERROR_ACCESS_DENIED
          then (ev @ report ''Access denied.'', n, Returned)
          else if last_error = Some ERROR_FILE_NOT_FOUND
          then (ev @ report ''File not found.'', n, Returned)
          else (ev, n, Threw e)
      | _ \<Rightarrow> (ev, n, Threw e))"

text \<open>Lines 177 to 242, one round of the \<open>do\<close> loop on the entry \<open>cur_file\<close>.\<close>

definition current_path_line :: "path \<Rightarrow> string" where
  "current_path_line cur_path = ''Current path: '' @ dquote @ cur_path @ dquote @ ''.''"

definition DumpEntry :: "(path \<Rightarrow> nat \<Rightarrow> result) \<Rightarrow> nat \<Rightarrow> os \<Rightarrow> path \<Rightarrow> path \<Rightarrow> nat \<Rightarrow> result" where
  "DumpEntry walk fuel os path_real cur_file n =
     (if cur_file = ''.'' \<or> cur_file = ''..'' then Some ([], n, Returned)
      else
        let cur_path = MakeExtendedPath os (path_real @ backslash @ cur_file) in
        after (report (current_path_line cur_path))
          (case DumpEntry_try walk fuel os cur_path n of
             None \<Rightarrow> None
           | Some (ev, n', Threw e) \<Rightarrow> Some (DumpEntry_catch ev n' e)
           | Some (ev, n', out) \<Rightarrow> Some (ev, n', out)))"

text \<open>
  The \<open>do ... while (::FindNextFileW(...))\<close> loop over the entries that the listing
  gives. \<open>continue\<close> goes to the loop condition, so the next entry is fetched after a
  skipped one; an exception leaves the loop.
\<close>

fun DumpEntries :: "(path \<Rightarrow> nat \<Rightarrow> result) \<Rightarrow> nat \<Rightarrow> os \<Rightarrow> path \<Rightarrow> path list \<Rightarrow> nat \<Rightarrow> result" where
  "DumpEntries walk fuel os path_real [] n = Some ([], n, Returned)"
| "DumpEntries walk fuel os path_real (cur_file # rest) n =
     (case DumpEntry walk fuel os path_real cur_file n of
        None \<Rightarrow> None
      | Some (ev, n', Returned) \<Rightarrow> after ev (DumpEntries walk fuel os path_real rest n')
      | Some (ev, n', out) \<Rightarrow> Some (ev, n', out))"

definition entering_dir_line :: "path \<Rightarrow> string" where
  "entering_dir_line path = ''Entering dir: '' @ dquote @ path @ dquote @ ''.''"

definition strip_trailing_backslash :: "path \<Rightarrow> path" where
  "strip_trailing_backslash path = (if last path = CHR 0x5C then butlast path else path)"

text \<open>
  \<open>DumpDir\<close>. One unit of fuel per level of recursion; the fuel left is also what each
  \<open>QueueLoop\<close> of this level may use.
\<close>

primrec DumpDir :: "nat \<Rightarrow> os \<Rightarrow> path \<Rightarrow> nat \<Rightarrow> result" where
  "DumpDir 0 os path n = None"
| "DumpDir (Suc fuel) os path n =
     after (report (entering_dir_line path))
       (if path = [] then Some ([], n, Undefined)
        else
          let path_real = strip_trailing_backslash path in
          case FindFiles os (path_real @ backslash @ ''*'') of
            Inl last_error \<Rightarrow>
              if last_error = ERROR_FILE_NOT_FOUND
              then Some (report ''Directory is empty.'', n, Returned)
              else if last_error = ERROR_ACCESS_DENIED
              then Some (report ''Access denied to directory.'', n, Returned)
              else Some ([], n, Threw (Error (Some last_error)))
          | Inr (first, rest, last_error) \<Rightarrow>
              (case DumpEntries (DumpDir fuel os) fuel os path_real (first # rest) n of
                 None \<Rightarrow> None
               | Some (ev, n', Returned) \<Rightarrow>
                   if last_error = ERROR_NO_MORE_FILES then Some (ev, n', Returned)
                   else Some (ev, n', Threw (Error (Some last_error)))
               | Some (ev, n', out) \<Rightarrow> Some (ev, n', out)))"

subsection \<open>What the claims speak about\<close>




text \<open>
  The lines with which the walker reports an entry as skipped, and what it means for the
  events \<open>seg\<close> of one round of the loop to account for the entry \<open>cur_file\<close>:
  nothing is done for \<open>.\<close> and \<open>..\<close>; any other entry is announced, and then it is
  recursed into (a directory that is not a symlink), or its task is accepted by the
  pool (not a directory), or the round ends with one of the skip lines.
\<close>

definition skip_lines :: "string list" where
  "skip_lines = [''Skipping symlink.'', ''Sharing violation.'', ''Access denied.'', ''File not found.'']"

definition entry_accounted :: "os \<Rightarrow> path \<Rightarrow> path \<Rightarrow> event list \<Rightarrow> bool" where
  "entry_accounted os path_real cur_file seg =
     (if cur_file = ''.'' \<or> cur_file = ''..'' then seg = []
      else
        let cur_path = MakeExtendedPath os (path_real @ backslash @ cur_file) in
        take 2 seg = report (current_path_line cur_path) \<and>
        ((IsDirectory os cur_path = Inr True \<and> IsSymlink os cur_path = Inr False
            \<and> WriteNormal (entering_dir_line cur_path) \<in> set seg)
         \<or> (IsDirectory os cur_path = Inr False \<and> QueueTask cur_path True \<in> set seg)
         \<or> (\<exists>msg \<in> set skip_lines. last seg = WriteNormal msg)))"

text \<open>
  The other way a round of the loop can end: the entry was announced and the round
  left the loop, by an exception that the handler does not turn into a skip line (or
  through the undefined call on an empty path in the recursion).
\<close>

definition entry_raised :: "os \<Rightarrow> path \<Rightarrow> path \<Rightarrow> event list \<Rightarrow> outcome \<Rightarrow> bool" where
  "entry_raised os path_real cur_file seg out =
     (cur_file \<noteq> ''.'' \<and> cur_file \<noteq> ''..''
      \<and> take 2 seg = report (current_path_line (MakeExtendedPath os (path_real @ backslash @ cur_file)))
      \<and> out \<noteq> Returned
      \<and> out \<noteq> Threw (Error (Some ERROR_SHARING_VIOLATION))
      \<and> out \<noteq> Threw (Error (Some ERROR_ACCESS_DENIED))
      \<and> out \<noteq> Threw (Error (Some ERROR_FILE_NOT_FOUND)))"

subsection \<open>Example file systems\<close>

definition ends_with :: "string \<Rightarrow> string \<Rightarrow> bool" where
  "ends_with s p = (length s \<le> length p \<and> drop (length p - length s) p = s)"

text \<open>
  A tree with symlink cycles. The root holds \<open>a.exe\<close>, \<open>loop\<close> (a symlink to the root
  itself) and the directory \<open>sub\<close>; \<open>sub\<close> holds \<open>b.exe\<close> and \<open>up\<close> (a symlink to the
  root). Every path through \<open>loop\<close> and \<open>up\<close> names a directory again, to any depth:
  a path is listed and classified by its last component. The pool refuses every
  other call.
\<close>

definition os_cycle :: os where
  "os_cycle =
     \<lparr> FindFiles = (\<lambda>pattern.
         if ends_with (''sub'' @ backslash @ ''*'') pattern
         then Inr (''.'', [''..'', ''b.exe'', ''up''], ERROR_NO_MORE_FILES)
         else Inr (''.'', [''..'', ''a.exe'', ''loop'', ''sub''], ERROR_NO_MORE_FILES)),
       IsDirectory = (\<lambda>p. Inr (ends_with ''loop'' p \<or> ends_with ''up'' p \<or> ends_with ''sub'' p)),
       IsSymlink = (\<lambda>p. Inr (ends_with ''loop'' p \<or> ends_with ''up'' p)),
       MakeExtendedPath = (\<lambda>p. p),
       QueueTask_result = odd \<rparr>"


text \<open>A directory whose listing cannot be started: \<open>FindFirstFileW\<close> fails with \<open>code\<close>.\<close>

definition os_unlistable :: "dword \<Rightarrow> os" where
  "os_unlistable code =
     \<lparr> FindFiles = (\<lambda>pattern. Inl code),
       IsDirectory = (\<lambda>p. Inr False),
       IsSymlink = (\<lambda>p. Inr False),
       MakeExtendedPath = (\<lambda>p. p),
       QueueTask_result = (\<lambda>k. True) \<rparr>"

text \<open>
  A directory with the entries \<open>locked\<close>, \<open>broken\<close> and \<open>ok.exe\<close>: the attribute query
  fails with a sharing violation on \<open>locked\<close> and with \<open>code\<close> on \<open>broken\<close>.
\<close>

definition os_errors :: "dword \<Rightarrow> os" where
  "os_errors code =
     \<lparr> FindFiles = (\<lambda>pattern. Inr (''.'', [''..'', ''locked'', ''broken'', ''ok.exe''], ERROR_NO_MORE_FILES)),
       IsDirectory = (\<lambda>p.
         if ends_with ''locked'' p then Inl (Error (Some ERROR_SHARING_VIOLATION))
         else if ends_with ''broken'' p then Inl (Error (Some code))
         else Inr False),
       IsSymlink = (\<lambda>p. Inr False),
       MakeExtendedPath = (\<lambda>p. p),
       QueueTask_result = (\<lambda>k. True) \<rparr>"

text \<open>
  A directory with the entries \<open>odd\<close>, \<open>sub\<close> and \<open>ok.exe\<close>. \<open>odd\<close> is a directory on
  which the symlink query fails with \<open>link_code\<close>; \<open>sub\<close> is a directory that is not a
  symlink and whose listing cannot be started: \<open>FindFirstFileW\<close> fails with \<open>list_code\<close>.
\<close>

definition os_raising :: "dword \<Rightarrow> dword \<Rightarrow> os" where
  "os_raising link_code list_code =
     \<lparr> FindFiles = (\<lambda>pattern.
         if ends_with (''sub'' @ backslash @ ''*'') pattern then Inl list_code
         else Inr (''.'', [''..'', ''odd'', ''sub'', ''ok.exe''], ERROR_NO_MORE_FILES)),
       IsDirectory = (\<lambda>p. Inr (ends_with ''odd'' p \<or> ends_with ''sub'' p)),
       IsSymlink = (\<lambda>p. if ends_with ''odd'' p then Inl (Error (Some link_code)) else Inr False),
       MakeExtendedPath = (\<lambda>p. p),
       QueueTask_result = (\<lambda>k. True) \<rparr>"

section \<open>Properties\<close>

subsection \<open>Sizes\<close>

lemma ucast_dword_roundtrip:
  "(ucast (ucast (s :: streampos) :: dword) :: streampos) = s \<longleftrightarrow> uint s < 2 ^ 32"
proof -
  have "uint (ucast (ucast s :: dword) :: streampos) = take_bit 32 (uint s)"
    by (simp add: unsigned_ucast_eq unsigned_take_bit_eq)
  moreover have "take_bit 32 (uint s) = uint s \<longleftrightarrow> uint s < 2 ^ 32"
    by (simp add: take_bit_int_eq_self_iff)
  ultimately show ?thesis
    by (metis word_uint_eq_iff)
qed

lemma uint_eq_sint_if_pos:
  assumes "0 < sint (s :: streampos)"
  shows "uint s = sint s"
proof -
  have "sint s < 2 ^ 64"
    using sint_lt [of s] by simp
  with assms have "take_bit 64 (sint s) = sint s"
    by (simp add: take_bit_int_eq_self)
  then show ?thesis
    using uint_sint [of s] by simp
qed

lemma size_fits_iff:
  assumes "0 < sint (s :: streampos)"
  shows "(ucast (ucast s :: dword) :: streampos) = s \<longleftrightarrow> sint s < 2 ^ 32"
  using assms by (simp add: ucast_dword_roundtrip uint_eq_sint_if_pos)

subsection \<open>The stages of \<open>DumpFile\<close>\<close>

lemma DumpFile_of_try_None:
  "DumpFile_try io path = (ev, None) \<Longrightarrow>
   DumpFile io path g = (SetCurrentFilePath path # ev, g\<lparr>current_file_path := path\<rparr>, Returned)"
  by (simp add: DumpFile_def Let_def)

lemma DumpFile_of_try_Some:
  "DumpFile_try io path = (ev, Some e) \<Longrightarrow>
   DumpFile io path g =
     (SetCurrentFilePath path # ev @ [CerrError e]
        @ (if path \<noteq> [] then [CerrCurrentFile path] else []),
      g\<lparr>current_file_path := path\<rparr>, Returned)"
  by (simp add: DumpFile_def Let_def)

lemma DumpFile_try_size_le_0:
  "OpenFile_result io = Inr True \<Longrightarrow> sint (tellg_result io) \<le> 0 \<Longrightarrow>
   DumpFile_try io path = ([OpenFile path, Tellg] @ report ''Empty or invalid file.'', None)"
  by (simp add: DumpFile_try_def Let_def)

lemma DumpFile_try_too_large:
  "OpenFile_result io = Inr True \<Longrightarrow> 0 < sint (tellg_result io) \<Longrightarrow>
   2 ^ 32 \<le> sint (tellg_result io) \<Longrightarrow>
   DumpFile_try io path = ([OpenFile path, Tellg] @ report ''File too large to be a valid PE.'', None)"
  by (simp add: DumpFile_try_def Let_def size_fits_iff)

text \<open>Past the size gates, the rest of the try block.\<close>

lemma DumpFile_try_seek1_fails:
  "OpenFile_result io = Inr True \<Longrightarrow> 0 < sint (tellg_result io) \<Longrightarrow>
   sint (tellg_result io) < 2 ^ 32 \<Longrightarrow> \<not> seekg1_result io \<Longrightarrow>
   DumpFile_try io path =
     ([OpenFile path, Tellg, Seekg] @ report ''WARNING! Seeking to beginning of file failed (1).'', None)"
  by (simp add: DumpFile_try_def Let_def size_fits_iff)

lemma DumpFile_try_seek2_fails:
  "OpenFile_result io = Inr True \<Longrightarrow> 0 < sint (tellg_result io) \<Longrightarrow>
   sint (tellg_result io) < 2 ^ 32 \<Longrightarrow> seekg1_result io \<Longrightarrow>
   read_mz_result io = Some (CHR ''M'', CHR ''Z'') \<Longrightarrow> \<not> seekg2_result io \<Longrightarrow>
   DumpFile_try io path =
     ([OpenFile path, Tellg, Seekg, ReadMz, Seekg]
        @ report ''WARNING! Seeking to beginning of file failed (2).'', None)"
  by (simp add: DumpFile_try_def Let_def size_fits_iff)

lemma DumpFile_try_read_all:
  "OpenFile_result io = Inr True \<Longrightarrow> 0 < sint (tellg_result io) \<Longrightarrow>
   sint (tellg_result io) < 2 ^ 32 \<Longrightarrow> seekg1_result io \<Longrightarrow>
   read_mz_result io = Some (CHR ''M'', CHR ''Z'') \<Longrightarrow> seekg2_result io \<Longrightarrow>
   resize_result io = None \<Longrightarrow> read_buf_result io \<Longrightarrow>
   DumpFile_try io path =
     ([OpenFile path, Tellg, Seekg, ReadMz, Seekg, Resize (unat (tellg_result io)),
       ReadBuf (unat (tellg_result io))] @ fst (DumpFile_pe io path (unat (tellg_result io))),
      snd (DumpFile_pe io path (unat (tellg_result io))))"
  by (simp add: DumpFile_try_def Let_def size_fits_iff split: prod.splits)

lemma Seekg_in_try_iff:
  assumes "OpenFile_result io = Inr True"
  shows "Seekg \<in> set (fst (DumpFile_try io path)) \<longleftrightarrow>
         0 < sint (tellg_result io) \<and> sint (tellg_result io) < 2 ^ 32"
proof (cases "0 < sint (tellg_result io)")
  case False
  then show ?thesis
    using assms by (simp add: DumpFile_try_def report_def)
next
  case True
  then show ?thesis
    using assms
    by (simp add: DumpFile_try_def Let_def report_def size_fits_iff
        split: option.splits prod.splits)
qed

lemma NewNtHeaders_in_pe:
  "NewNtHeaders \<in> set (fst (DumpFile_pe io path n)) \<Longrightarrow>
   Process_result io = None \<and> PeFile_result io = None"
  by (auto simp add: DumpFile_pe_def report_def split: option.splits if_splits)

lemma NewNtHeaders_in_try:
  assumes "NewNtHeaders \<in> set (fst (DumpFile_try io path))"
  shows "OpenFile_result io = Inr True \<and> 0 < sint (tellg_result io)
       \<and> sint (tellg_result io) < 2 ^ 32 \<and> seekg1_result io
       \<and> read_mz_result io = Some (CHR ''M'', CHR ''Z'') \<and> seekg2_result io
       \<and> resize_result io = None \<and> read_buf_result io
       \<and> Process_result io = None \<and> PeFile_result io = None"
proof -
  from assms have op: "OpenFile_result io = Inr True"
    by (auto simp add: DumpFile_try_def report_def split: sum.splits if_splits)
  from assms op have pos: "0 < sint (tellg_result io)"
    by (auto simp add: DumpFile_try_def Let_def report_def split: if_splits)
  from assms op pos have lt: "sint (tellg_result io) < 2 ^ 32"
    by (auto simp add: DumpFile_try_def Let_def report_def size_fits_iff split: if_splits)
  from assms op pos lt have rest:
    "seekg1_result io \<and> read_mz_result io = Some (CHR ''M'', CHR ''Z'') \<and> seekg2_result io
       \<and> resize_result io = None \<and> read_buf_result io"
    by (auto simp add: DumpFile_try_def Let_def report_def size_fits_iff
        split: if_splits option.splits prod.splits)
  with assms op pos lt have "NewNtHeaders \<in> set (fst (DumpFile_pe io path (unat (tellg_result io))))"
    by (simp add: DumpFile_try_read_all)
  then show ?thesis
    using op pos lt rest NewNtHeaders_in_pe by blast
qed

lemma fst_DumpFile:
  "NewNtHeaders \<in> set (fst (DumpFile io path g)) \<longleftrightarrow> NewNtHeaders \<in> set (fst (DumpFile_try io path))"
  by (cases "DumpFile_try io path") (auto simp add: DumpFile_def Let_def split: option.splits)

lemma DumpFile_pe_NtHeaders_std:
  "Process_result io = None \<Longrightarrow> PeFile_result io = None \<Longrightarrow>
   NtHeaders_result io = Some e \<Longrightarrow> is_std_exception e \<Longrightarrow>
   DumpFile_pe io path n =
     ([NewProcess, NewPeFile n, NewNtHeaders]
        @ report ''Not a PE file or wrong architecture (Pass 2).'', None)"
  by (simp add: DumpFile_pe_def)

lemma DumpFile_pe_NtHeaders_other:
  "Process_result io = None \<Longrightarrow> PeFile_result io = None \<Longrightarrow>
   NtHeaders_result io = Some e \<Longrightarrow> \<not> is_std_exception e \<Longrightarrow>
   DumpFile_pe io path n = ([NewProcess, NewPeFile n, NewNtHeaders], Some e)"
  by (simp add: DumpFile_pe_def)

subsection \<open>Claims about \<open>DumpFile\<close>\<close>

text \<open>
  Claim C2. A file that opens, whose size is strictly positive and fits an unsigned
  32-bit integer, and whose first two bytes can be read (the seek to the start and the
  two-byte read both succeed) but are not \<open>M\<close>, \<open>Z\<close>: \<open>DumpFile\<close> writes
  \<open>Not a PE file (Pass 1).\<close>, the rejection the specification calls
  \<open>NoMagicSignature\<close>, and returns. The run is exactly: set the current path, open,
  \<open>tellg\<close>, seek, the two-byte read, the report. \<open>buf.resize\<close> and the read into
  \<open>buf\<close> are not in it, for any size.
\<close>

theorem C2_no_magic_rejected_before_full_read:
  assumes "OpenFile_result io = Inr True"
    and "0 < sint (tellg_result io)" and "sint (tellg_result io) < 2 ^ 32"
    and "seekg1_result io"
    and "read_mz_result io = Some (mz0, mz1)"
    and "mz0 \<noteq> CHR ''M'' \<or> mz1 \<noteq> CHR ''Z''"
  shows "DumpFile io path g =
           ([SetCurrentFilePath path, OpenFile path, Tellg, Seekg, ReadMz,
             WriteNewline, WriteNormal ''Not a PE file (Pass 1).''],
            g\<lparr>current_file_path := path\<rparr>, Returned)
         \<and> rejection (fst (DumpFile io path g)) = Some NoMagicSignature
         \<and> (\<forall>k. Resize k \<notin> set (fst (DumpFile io path g))
                \<and> ReadBuf k \<notin> set (fst (DumpFile io path g)))"
proof -
  have "DumpFile_try io path =
          ([OpenFile path, Tellg, Seekg, ReadMz] @ report ''Not a PE file (Pass 1).'', None)"
    using assms by (auto simp add: DumpFile_try_def Let_def size_fits_iff)
  then have run: "DumpFile io path g =
           ([SetCurrentFilePath path, OpenFile path, Tellg, Seekg, ReadMz,
             WriteNewline, WriteNormal ''Not a PE file (Pass 1).''],
            g\<lparr>current_file_path := path\<rparr>, Returned)"
    by (simp add: DumpFile_of_try_None report_def)
  show ?thesis
    unfolding run by (simp add: rejection_def spec_reason_def)
qed

theorem C2_witness:
  "DumpFile (io_pe\<lparr>read_mz_result := Some (CHR ''h'', CHR ''i'')\<rparr>) ''b.txt'' g0 =
           ([SetCurrentFilePath ''b.txt'', OpenFile ''b.txt'', Tellg, Seekg, ReadMz,
             WriteNewline, WriteNormal ''Not a PE file (Pass 1).''],
            g0\<lparr>current_file_path := ''b.txt''\<rparr>, Returned)"
  using C2_no_magic_rejected_before_full_read
    [of "io_pe\<lparr>read_mz_result := Some (CHR ''h'', CHR ''i'')\<rparr>" "CHR ''h''" "CHR ''i''" "''b.txt''" g0]
  by (simp add: io_pe_def)

text \<open>
  Claim C3. On a file that opens: a size that is zero or negative gives
  \<open>Empty or invalid file.\<close> (\<open>EmptyOrUnreadable\<close>); a size of \<open>2^32\<close> or more, which
  the cast to \<open>std::uint32_t\<close> does not preserve, gives
  \<open>File too large to be a valid PE.\<close> (\<open>TooLarge\<close>); and the run goes on to the
  next step after the size checks, the seek to the start, exactly when the size is
  strictly positive and below \<open>2^32\<close>.
\<close>

theorem C3_size_gates:
  assumes "OpenFile_result io = Inr True"
  shows "(sint (tellg_result io) \<le> 0 \<longrightarrow>
            DumpFile io path g =
              ([SetCurrentFilePath path, OpenFile path, Tellg,
                WriteNewline, WriteNormal ''Empty or invalid file.''],
               g\<lparr>current_file_path := path\<rparr>, Returned)
            \<and> rejection (fst (DumpFile io path g)) = Some EmptyOrUnreadable)
       \<and> (2 ^ 32 \<le> sint (tellg_result io) \<longrightarrow>
            DumpFile io path g =
              ([SetCurrentFilePath path, OpenFile path, Tellg,
                WriteNewline, WriteNormal ''File too large to be a valid PE.''],
               g\<lparr>current_file_path := path\<rparr>, Returned)
            \<and> rejection (fst (DumpFile io path g)) = Some TooLarge)
       \<and> (Seekg \<in> set (fst (DumpFile io path g)) \<longleftrightarrow>
            0 < sint (tellg_result io) \<and> sint (tellg_result io) < 2 ^ 32)"
proof (intro conjI impI)
  assume le: "sint (tellg_result io) \<le> 0"
  show "DumpFile io path g =
              ([SetCurrentFilePath path, OpenFile path, Tellg,
                WriteNewline, WriteNormal ''Empty or invalid file.''],
               g\<lparr>current_file_path := path\<rparr>, Returned)"
    using DumpFile_of_try_None [OF DumpFile_try_size_le_0 [OF assms le]]
    by (simp add: report_def)
  then show "rejection (fst (DumpFile io path g)) = Some EmptyOrUnreadable"
    by (simp add: rejection_def spec_reason_def)
next
  assume ge: "2 ^ 32 \<le> sint (tellg_result io)"
  then have pos: "0 < sint (tellg_result io)"
    by (rule less_le_trans [rotated]) simp
  show "DumpFile io path g =
              ([SetCurrentFilePath path, OpenFile path, Tellg,
                WriteNewline, WriteNormal ''File too large to be a valid PE.''],
               g\<lparr>current_file_path := path\<rparr>, Returned)"
    using DumpFile_of_try_None [OF DumpFile_try_too_large [OF assms pos ge]]
    by (simp add: report_def)
  then show "rejection (fst (DumpFile io path g)) = Some TooLarge"
    by (simp add: rejection_def spec_reason_def)
next
  have "Seekg \<in> set (fst (DumpFile io path g)) \<longleftrightarrow> Seekg \<in> set (fst (DumpFile_try io path))"
    by (cases "DumpFile_try io path") (auto simp add: DumpFile_def Let_def split: option.splits)
  then show "Seekg \<in> set (fst (DumpFile io path g)) \<longleftrightarrow>
            0 < sint (tellg_result io) \<and> sint (tellg_result io) < 2 ^ 32"
    using Seekg_in_try_iff [OF assms] by simp
qed

theorem C3_witness:
  "rejection (fst (DumpFile (io_pe\<lparr>tellg_result := - 1\<rparr>) ''gone.bin'' g0)) = Some EmptyOrUnreadable
   \<and> rejection (fst (DumpFile (io_pe\<lparr>tellg_result := 4294967296\<rparr>) ''huge.bin'' g0)) = Some TooLarge
   \<and> Seekg \<in> set (fst (DumpFile (io_pe\<lparr>tellg_result := 4294967295\<rparr>) ''big.bin'' g0))"
proof -
  have "OpenFile_result (io_pe\<lparr>tellg_result := - 1\<rparr>) = Inr True"
    and "sint (tellg_result (io_pe\<lparr>tellg_result := - 1\<rparr>)) \<le> 0"
    by (simp_all add: io_pe_def)
  then have a: "rejection (fst (DumpFile (io_pe\<lparr>tellg_result := - 1\<rparr>) ''gone.bin'' g0))
      = Some EmptyOrUnreadable"
    using C3_size_gates [of "io_pe\<lparr>tellg_result := - 1\<rparr>" "''gone.bin''" g0] by blast
  have "OpenFile_result (io_pe\<lparr>tellg_result := 4294967296\<rparr>) = Inr True"
    and "2 ^ 32 \<le> sint (tellg_result (io_pe\<lparr>tellg_result := 4294967296\<rparr>))"
    by (simp_all add: io_pe_def)
  then have b: "rejection (fst (DumpFile (io_pe\<lparr>tellg_result := 4294967296\<rparr>) ''huge.bin'' g0))
      = Some TooLarge"
    using C3_size_gates [of "io_pe\<lparr>tellg_result := 4294967296\<rparr>" "''huge.bin''" g0] by blast
  have "OpenFile_result (io_pe\<lparr>tellg_result := 4294967295\<rparr>) = Inr True"
    and "0 < sint (tellg_result (io_pe\<lparr>tellg_result := 4294967295\<rparr>))"
    and "sint (tellg_result (io_pe\<lparr>tellg_result := 4294967295\<rparr>)) < 2 ^ 32"
    by (simp_all add: io_pe_def)
  then have c: "Seekg \<in> set (fst (DumpFile (io_pe\<lparr>tellg_result := 4294967295\<rparr>) ''big.bin'' g0))"
    using C3_size_gates [of "io_pe\<lparr>tellg_result := 4294967295\<rparr>" "''big.bin''" g0] by blast
  from a b c show ?thesis by blast
qed

text \<open>
  Claim C8, as stated, fails where the \<open>NtHeaders\<close> constructor throws something that
  is not derived from \<open>std::exception\<close>: the inner handler, which takes
  \<open>std::exception const&\<close>, does not catch it. The outer \<open>catch (...)\<close> does, and
  writes the error and the current file to \<open>std::cerr\<close>; the Pass 2 report is not written.
\<close>

theorem C8_counterexample:
  "NtHeaders_result (io_pe\<lparr>NtHeaders_result := Some other_exception\<rparr>) = Some other_exception
   \<and> DumpFile (io_pe\<lparr>NtHeaders_result := Some other_exception\<rparr>) ''a.exe'' g0 =
       ([SetCurrentFilePath ''a.exe'', OpenFile ''a.exe'', Tellg, Seekg, ReadMz, Seekg,
         Resize 4096, ReadBuf 4096, NewProcess, NewPeFile 4096, NewNtHeaders,
         CerrError other_exception, CerrCurrentFile ''a.exe''],
        \<lparr>current_file_path = ''a.exe''\<rparr>, Returned)
   \<and> rejection (fst (DumpFile (io_pe\<lparr>NtHeaders_result := Some other_exception\<rparr>) ''a.exe'' g0))
       \<noteq> Some StructurallyInvalid"
  by (simp add: io_pe_def g0_def DumpFile_def DumpFile_try_def DumpFile_pe_def Let_def
      rejection_def)

text \<open>
  Claim C8, amended. The \<open>NtHeaders\<close> constructor, the structural-header parser, is
  reached only when the file opened, its size passed both checks, both seeks and the
  two-byte read succeeded and gave \<open>MZ\<close>, \<open>buf.resize\<close> did not throw, the full read
  succeeded, and the \<open>Process\<close> and \<open>PeFile\<close> constructors did not throw. When it
  throws, \<open>DumpFile\<close> returns and \<open>DumpPeFile\<close> is not called; an exception derived
  from \<open>std::exception\<close> gives the report
  \<open>Not a PE file or wrong architecture (Pass 2).\<close> (\<open>StructurallyInvalid\<close>), any
  other exception is logged by the outer handler instead.
\<close>

theorem C8_structural_parser_guarded:
  "(NewNtHeaders \<in> set (fst (DumpFile io path g)) \<longrightarrow>
      OpenFile_result io = Inr True \<and> 0 < sint (tellg_result io)
      \<and> sint (tellg_result io) < 2 ^ 32 \<and> seekg1_result io
      \<and> read_mz_result io = Some (CHR ''M'', CHR ''Z'') \<and> seekg2_result io
      \<and> resize_result io = None \<and> read_buf_result io
      \<and> Process_result io = None \<and> PeFile_result io = None)
   \<and> (NewNtHeaders \<in> set (fst (DumpFile io path g)) \<and> NtHeaders_result io = Some e \<longrightarrow>
        snd (snd (DumpFile io path g)) = Returned
        \<and> DumpPeFile path \<notin> set (fst (DumpFile io path g))
        \<and> (is_std_exception e \<longrightarrow>
              fst (DumpFile io path g) =
                [SetCurrentFilePath path, OpenFile path, Tellg, Seekg, ReadMz, Seekg,
                 Resize (unat (tellg_result io)), ReadBuf (unat (tellg_result io)),
                 NewProcess, NewPeFile (unat (tellg_result io)), NewNtHeaders,
                 WriteNewline, WriteNormal ''Not a PE file or wrong architecture (Pass 2).'']
              \<and> rejection (fst (DumpFile io path g)) = Some StructurallyInvalid)
        \<and> (\<not> is_std_exception e \<longrightarrow>
              fst (DumpFile io path g) =
                [SetCurrentFilePath path, OpenFile path, Tellg, Seekg, ReadMz, Seekg,
                 Resize (unat (tellg_result io)), ReadBuf (unat (tellg_result io)),
                 NewProcess, NewPeFile (unat (tellg_result io)), NewNtHeaders, CerrError e]
                @ (if path \<noteq> [] then [CerrCurrentFile path] else [])))"
proof -
  let ?n = "unat (tellg_result io)"
  let ?stages = "OpenFile_result io = Inr True \<and> 0 < sint (tellg_result io)
      \<and> sint (tellg_result io) < 2 ^ 32 \<and> seekg1_result io
      \<and> read_mz_result io = Some (CHR ''M'', CHR ''Z'') \<and> seekg2_result io
      \<and> resize_result io = None \<and> read_buf_result io
      \<and> Process_result io = None \<and> PeFile_result io = None"
  have stages: "?stages" if "NewNtHeaders \<in> set (fst (DumpFile io path g))"
    using that NewNtHeaders_in_try [of io path] by (simp add: fst_DumpFile)
  have returned: "snd (snd (DumpFile io path g)) = Returned"
    by (cases "DumpFile_try io path") (auto simp add: DumpFile_def Let_def split: option.splits)
  have tried: "DumpFile_try io path =
     ([OpenFile path, Tellg, Seekg, ReadMz, Seekg, Resize ?n, ReadBuf ?n]
        @ fst (DumpFile_pe io path ?n), snd (DumpFile_pe io path ?n))"
    if "NewNtHeaders \<in> set (fst (DumpFile io path g))"
    using stages [OF that] by (simp add: DumpFile_try_read_all)
  have std: "fst (DumpFile io path g) =
                [SetCurrentFilePath path, OpenFile path, Tellg, Seekg, ReadMz, Seekg,
                 Resize ?n, ReadBuf ?n, NewProcess, NewPeFile ?n, NewNtHeaders,
                 WriteNewline, WriteNormal ''Not a PE file or wrong architecture (Pass 2).'']"
    if "NewNtHeaders \<in> set (fst (DumpFile io path g))" and "NtHeaders_result io = Some e"
      and "is_std_exception e"
  proof -
    have "DumpFile_pe io path ?n =
      ([NewProcess, NewPeFile ?n, NewNtHeaders]
        @ report ''Not a PE file or wrong architecture (Pass 2).'', None)"
      using stages [OF that(1)] that(2,3) by (simp add: DumpFile_pe_NtHeaders_std)
    with tried [OF that(1)] show ?thesis
      by (simp add: DumpFile_def Let_def report_def)
  qed
  have other: "fst (DumpFile io path g) =
                [SetCurrentFilePath path, OpenFile path, Tellg, Seekg, ReadMz, Seekg,
                 Resize ?n, ReadBuf ?n, NewProcess, NewPeFile ?n, NewNtHeaders, CerrError e]
                @ (if path \<noteq> [] then [CerrCurrentFile path] else [])"
    if "NewNtHeaders \<in> set (fst (DumpFile io path g))" and "NtHeaders_result io = Some e"
      and "\<not> is_std_exception e"
  proof -
    have "DumpFile_pe io path ?n = ([NewProcess, NewPeFile ?n, NewNtHeaders], Some e)"
      using stages [OF that(1)] that(2,3) by (simp add: DumpFile_pe_NtHeaders_other)
    with tried [OF that(1)] show ?thesis
      by (simp add: DumpFile_def Let_def)
  qed
  have rej: "rejection (fst (DumpFile io path g)) = Some StructurallyInvalid"
    if "NewNtHeaders \<in> set (fst (DumpFile io path g))" and "NtHeaders_result io = Some e"
      and "is_std_exception e"
    unfolding std [OF that] by (simp add: rejection_def spec_reason_def)
  have nodump: "DumpPeFile path \<notin> set (fst (DumpFile io path g))"
    if "NewNtHeaders \<in> set (fst (DumpFile io path g))" and "NtHeaders_result io = Some e"
  proof (cases "is_std_exception e")
    case True
    show ?thesis unfolding std [OF that True] by simp
  next
    case False
    show ?thesis unfolding other [OF that False] by simp
  qed
  show ?thesis
    using stages returned std other rej nodump by blast
qed

theorem C8_witness:
  "NewNtHeaders \<in> set (fst (DumpFile (io_pe\<lparr>NtHeaders_result := Some (Error None)\<rparr>) ''d.exe'' g0))
   \<and> NtHeaders_result (io_pe\<lparr>NtHeaders_result := Some (Error None)\<rparr>) = Some (Error None)
   \<and> is_std_exception (Error None)
   \<and> rejection (fst (DumpFile (io_pe\<lparr>NtHeaders_result := Some (Error None)\<rparr>) ''d.exe'' g0))
       = Some StructurallyInvalid
   \<and> snd (snd (DumpFile (io_pe\<lparr>NtHeaders_result := Some (Error None)\<rparr>) ''d.exe'' g0)) = Returned
   \<and> NewNtHeaders \<in> set (fst (DumpFile (io_pe\<lparr>NtHeaders_result := Some other_exception\<rparr>) ''d.exe'' g0))
   \<and> \<not> is_std_exception other_exception
   \<and> fst (DumpFile (io_pe\<lparr>NtHeaders_result := Some other_exception\<rparr>) ''d.exe'' g0) =
       [SetCurrentFilePath ''d.exe'', OpenFile ''d.exe'', Tellg, Seekg, ReadMz, Seekg,
        Resize 4096, ReadBuf 4096, NewProcess, NewPeFile 4096, NewNtHeaders,
        CerrError other_exception, CerrCurrentFile ''d.exe'']"
proof -
  let ?io = "io_pe\<lparr>NtHeaders_result := Some (Error None)\<rparr>"
  let ?io' = "io_pe\<lparr>NtHeaders_result := Some other_exception\<rparr>"
  have a: "NewNtHeaders \<in> set (fst (DumpFile ?io ''d.exe'' g0))"
    by (simp add: io_pe_def DumpFile_def DumpFile_try_def DumpFile_pe_def Let_def report_def)
  have b: "NtHeaders_result ?io = Some (Error None)" "is_std_exception (Error None)"
    by simp_all
  have a': "NewNtHeaders \<in> set (fst (DumpFile ?io' ''d.exe'' g0))"
    by (simp add: io_pe_def DumpFile_def DumpFile_try_def DumpFile_pe_def Let_def report_def)
  have b': "NtHeaders_result ?io' = Some other_exception" "\<not> is_std_exception other_exception"
    by simp_all
  have c: "unat (tellg_result ?io') = 4096"
    by (simp add: io_pe_def)
  from C8_structural_parser_guarded [of ?io "''d.exe''" g0 "Error None"] a b
  have r: "rejection (fst (DumpFile ?io ''d.exe'' g0)) = Some StructurallyInvalid"
    "snd (snd (DumpFile ?io ''d.exe'' g0)) = Returned"
    by blast+
  from C8_structural_parser_guarded [of ?io' "''d.exe''" g0 other_exception] a' b'
  have "fst (DumpFile ?io' ''d.exe'' g0) =
       [SetCurrentFilePath ''d.exe'', OpenFile ''d.exe'', Tellg, Seekg, ReadMz, Seekg,
        Resize (unat (tellg_result ?io')), ReadBuf (unat (tellg_result ?io')), NewProcess,
        NewPeFile (unat (tellg_result ?io')), NewNtHeaders, CerrError other_exception]
        @ (if ''d.exe'' \<noteq> [] then [CerrCurrentFile ''d.exe''] else [])"
    by blast
  then have r': "fst (DumpFile ?io' ''d.exe'' g0) =
       [SetCurrentFilePath ''d.exe'', OpenFile ''d.exe'', Tellg, Seekg, ReadMz, Seekg,
        Resize 4096, ReadBuf 4096, NewProcess, NewPeFile 4096, NewNtHeaders,
        CerrError other_exception, CerrCurrentFile ''d.exe'']"
    unfolding c by simp
  from a b r a' b' r' show ?thesis by blast
qed

text \<open>
  Claim C9. \<open>DumpFile\<close> is the body of every task the walker queues. Whatever the
  services answer, it returns, and it leaves the current file path set to its own
  path: the path is stored before anything can throw and nothing in the function
  clears it. When an exception \<open>e\<close> leaves the \<open>try\<close> block after the events \<open>ev\<close>,
  the run is those events followed by the diagnostic for \<open>e\<close> and the current file
  path on \<open>std::cerr\<close>, and nothing more is done for the file. The handler writes the
  path only when it is not empty, hence the hypothesis on \<open>path\<close>.
\<close>

theorem C9_task_exception_contained:
  assumes "path \<noteq> []"
  shows "snd (snd (DumpFile io path g)) = Returned
       \<and> current_file_path (fst (snd (DumpFile io path g))) = path
       \<and> (\<forall>ev e. DumpFile_try io path = (ev, Some e) \<longrightarrow>
            fst (DumpFile io path g) =
              SetCurrentFilePath path # ev @ [CerrError e, CerrCurrentFile path])"
proof (intro conjI allI impI)
  show "snd (snd (DumpFile io path g)) = Returned"
    by (cases "DumpFile_try io path") (auto simp add: DumpFile_def Let_def split: option.splits)
  show "current_file_path (fst (snd (DumpFile io path g))) = path"
    by (cases "DumpFile_try io path") (auto simp add: DumpFile_def Let_def split: option.splits)
  fix ev e
  assume "DumpFile_try io path = (ev, Some e)"
  from DumpFile_of_try_Some [OF this, of g] assms
  show "fst (DumpFile io path g) = SetCurrentFilePath path # ev @ [CerrError e, CerrCurrentFile path]"
    by simp
qed

theorem C9_witness:
  "''a.exe'' \<noteq> []
   \<and> DumpFile_try (io_pe\<lparr>DumpPeFile_result := Some std_exception\<rparr>) ''a.exe'' =
       ([OpenFile ''a.exe'', Tellg, Seekg, ReadMz, Seekg, Resize 4096, ReadBuf 4096,
         NewProcess, NewPeFile 4096, NewNtHeaders, DumpPeFile ''a.exe''], Some std_exception)
   \<and> DumpFile (io_pe\<lparr>DumpPeFile_result := Some std_exception\<rparr>) ''a.exe''
        \<lparr>current_file_path = ''before.dll''\<rparr> =
       ([SetCurrentFilePath ''a.exe'', OpenFile ''a.exe'', Tellg, Seekg, ReadMz, Seekg,
         Resize 4096, ReadBuf 4096, NewProcess, NewPeFile 4096, NewNtHeaders,
         DumpPeFile ''a.exe'', CerrError std_exception, CerrCurrentFile ''a.exe''],
        \<lparr>current_file_path = ''a.exe''\<rparr>, Returned)"
proof -
  let ?io = "io_pe\<lparr>DumpPeFile_result := Some std_exception\<rparr>"
  let ?g = "\<lparr>current_file_path = ''before.dll''\<rparr>"
  have ne: "''a.exe'' \<noteq> []"
    by simp
  have t: "DumpFile_try ?io ''a.exe'' =
       ([OpenFile ''a.exe'', Tellg, Seekg, ReadMz, Seekg, Resize 4096, ReadBuf 4096,
         NewProcess, NewPeFile 4096, NewNtHeaders, DumpPeFile ''a.exe''], Some std_exception)"
    by (simp add: io_pe_def DumpFile_try_def DumpFile_pe_def Let_def)
  from C9_task_exception_contained [OF ne, of ?io ?g] t
  have "snd (snd (DumpFile ?io ''a.exe'' ?g)) = Returned"
    and "current_file_path (fst (snd (DumpFile ?io ''a.exe'' ?g))) = ''a.exe''"
    and "fst (DumpFile ?io ''a.exe'' ?g) =
       SetCurrentFilePath ''a.exe'' # [OpenFile ''a.exe'', Tellg, Seekg, ReadMz, Seekg,
         Resize 4096, ReadBuf 4096, NewProcess, NewPeFile 4096, NewNtHeaders,
         DumpPeFile ''a.exe''] @ [CerrError std_exception, CerrCurrentFile ''a.exe'']"
    by blast+
  then have "DumpFile ?io ''a.exe'' ?g =
       ([SetCurrentFilePath ''a.exe'', OpenFile ''a.exe'', Tellg, Seekg, ReadMz, Seekg,
         Resize 4096, ReadBuf 4096, NewProcess, NewPeFile 4096, NewNtHeaders,
         DumpPeFile ''a.exe'', CerrError std_exception, CerrCurrentFile ''a.exe''],
        \<lparr>current_file_path = ''a.exe''\<rparr>, Returned)"
    by (cases "DumpFile ?io ''a.exe'' ?g") (simp del: list.inject)
  with ne t show ?thesis by blast
qed

text \<open>
  Claim C10. On a file that opened and passed the size checks, a failing seek to the
  start gives the file up: before the two-byte read the run ends with the warning
  \<open>Seeking to beginning of file failed (1).\<close>, and after an \<open>MZ\<close> signature was read
  it ends with warning \<open>(2)\<close>. In both runs \<open>buf.resize\<close>, the read into \<open>buf\<close>
  and \<open>DumpPeFile\<close> do not occur. Neither warning is a line to which the
  specification's stages attach a rejection reason.
\<close>

theorem C10_seek_failure_abandons:
  assumes "OpenFile_result io = Inr True"
    and "0 < sint (tellg_result io)" and "sint (tellg_result io) < 2 ^ 32"
  shows "(\<not> seekg1_result io \<longrightarrow>
            DumpFile io path g =
              ([SetCurrentFilePath path, OpenFile path, Tellg, Seekg, WriteNewline,
                WriteNormal ''WARNING! Seeking to beginning of file failed (1).''],
               g\<lparr>current_file_path := path\<rparr>, Returned)
            \<and> rejection (fst (DumpFile io path g)) = None)
       \<and> (seekg1_result io \<and> read_mz_result io = Some (CHR ''M'', CHR ''Z'')
            \<and> \<not> seekg2_result io \<longrightarrow>
            DumpFile io path g =
              ([SetCurrentFilePath path, OpenFile path, Tellg, Seekg, ReadMz, Seekg,
                WriteNewline, WriteNormal ''WARNING! Seeking to beginning of file failed (2).''],
               g\<lparr>current_file_path := path\<rparr>, Returned)
            \<and> rejection (fst (DumpFile io path g)) = None)"
proof -
  have one: "DumpFile io path g =
              ([SetCurrentFilePath path, OpenFile path, Tellg, Seekg, WriteNewline,
                WriteNormal ''WARNING! Seeking to beginning of file failed (1).''],
               g\<lparr>current_file_path := path\<rparr>, Returned)" if "\<not> seekg1_result io"
    using DumpFile_of_try_None [OF DumpFile_try_seek1_fails [OF assms that]]
    by (simp add: report_def)
  have two: "DumpFile io path g =
              ([SetCurrentFilePath path, OpenFile path, Tellg, Seekg, ReadMz, Seekg,
                WriteNewline, WriteNormal ''WARNING! Seeking to beginning of file failed (2).''],
               g\<lparr>current_file_path := path\<rparr>, Returned)"
    if "seekg1_result io" and "read_mz_result io = Some (CHR ''M'', CHR ''Z'')"
      and "\<not> seekg2_result io"
    using DumpFile_of_try_None [OF DumpFile_try_seek2_fails [OF assms that]]
    by (simp add: report_def)
  have r1: "rejection (fst (DumpFile io path g)) = None" if "\<not> seekg1_result io"
    unfolding one [OF that] by (simp add: rejection_def spec_reason_def)
  have r2: "rejection (fst (DumpFile io path g)) = None"
    if "seekg1_result io" and "read_mz_result io = Some (CHR ''M'', CHR ''Z'')"
      and "\<not> seekg2_result io"
    unfolding two [OF that] by (simp add: rejection_def spec_reason_def)
  show ?thesis
    using one two r1 r2 by blast
qed

theorem C10_witness:
  "DumpFile (io_pe\<lparr>seekg1_result := False\<rparr>) ''a.exe'' g0 =
     ([SetCurrentFilePath ''a.exe'', OpenFile ''a.exe'', Tellg, Seekg, WriteNewline,
       WriteNormal ''WARNING! Seeking to beginning of file failed (1).''],
      g0\<lparr>current_file_path := ''a.exe''\<rparr>, Returned)
   \<and> DumpFile (io_pe\<lparr>seekg2_result := False\<rparr>) ''a.exe'' g0 =
     ([SetCurrentFilePath ''a.exe'', OpenFile ''a.exe'', Tellg, Seekg, ReadMz, Seekg,
       WriteNewline, WriteNormal ''WARNING! Seeking to beginning of file failed (2).''],
      g0\<lparr>current_file_path := ''a.exe''\<rparr>, Returned)"
proof -
  let ?io1 = "io_pe\<lparr>seekg1_result := False\<rparr>"
  let ?io2 = "io_pe\<lparr>seekg2_result := False\<rparr>"
  have h1: "OpenFile_result ?io1 = Inr True" "0 < sint (tellg_result ?io1)"
    "sint (tellg_result ?io1) < 2 ^ 32" "\<not> seekg1_result ?io1"
    by (simp_all add: io_pe_def)
  have h2: "OpenFile_result ?io2 = Inr True" "0 < sint (tellg_result ?io2)"
    "sint (tellg_result ?io2) < 2 ^ 32" "seekg1_result ?io2"
    "read_mz_result ?io2 = Some (CHR ''M'', CHR ''Z'')" "\<not> seekg2_result ?io2"
    by (simp_all add: io_pe_def)
  from C10_seek_failure_abandons [OF h1(1-3), of "''a.exe''" g0] h1(4)
    C10_seek_failure_abandons [OF h2(1-3), of "''a.exe''" g0] h2(4-6)
  show ?thesis by blast
qed

subsection \<open>The retry loop and the shape of a walk\<close>

lemma after_None [simp]: "after ev None = None"
  by (simp add: after_def)

lemma after_Some [simp]: "after ev (Some (ev', n, out)) = Some (ev @ ev', n, out)"
  by (simp add: after_def)

lemma after_Nil [simp]: "after [] r = r"
  by (cases r) auto

lemma after_after: "after a (after b r) = after (a @ b) r"
  by (cases r) auto

lemma after_eq_Some:
  "after a r = Some (ev, n, out) \<longleftrightarrow> (\<exists>ev'. r = Some (ev', n, out) \<and> ev = a @ ev')"
  by (cases r) auto

lemma after_eq_None [simp]: "after a r = None \<longleftrightarrow> r = None"
  by (cases r) auto

lemma QueueLoop_accepted:
  "(\<forall>j<k. \<not> QueueTask_result os (n + j)) \<Longrightarrow> QueueTask_result os (n + k) \<Longrightarrow> k < fuel \<Longrightarrow>
   QueueLoop fuel os task n =
     Some (concat (replicate k [WaitForSlot, QueueTask task False])
             @ [WaitForSlot, QueueTask task True], Suc (n + k), Returned)"
proof (induction k arbitrary: n fuel)
  case 0
  then obtain f where "fuel = Suc f"
    by (cases fuel) auto
  with 0 show ?case by simp
next
  case (Suc k)
  then obtain f where f: "fuel = Suc f" "k < f"
    by (cases fuel) auto
  from Suc.prems(1) have no: "\<not> QueueTask_result os n"
    by (metis add_0_right zero_less_Suc)
  from Suc.prems(1) have "\<forall>j<k. \<not> QueueTask_result os (Suc n + j)"
    by (metis Suc_less_eq add_Suc_shift)
  moreover from Suc.prems(2) have "QueueTask_result os (Suc n + k)"
    by simp
  ultimately have "QueueLoop f os task (Suc n) =
     Some (concat (replicate k [WaitForSlot, QueueTask task False])
             @ [WaitForSlot, QueueTask task True], Suc (Suc n + k), Returned)"
    using f(2) by (rule Suc.IH)
  with no f show ?case by simp
qed

lemma QueueLoop_never:
  "(\<forall>j. \<not> QueueTask_result os (n + j)) \<Longrightarrow> QueueLoop fuel os task n = None"
proof (induction fuel arbitrary: n)
  case 0
  show ?case by simp
next
  case (Suc fuel)
  from Suc.prems have no: "\<not> QueueTask_result os n"
    by (metis add_0_right)
  from Suc.prems have "\<forall>j. \<not> QueueTask_result os (Suc n + j)"
    by (metis add_Suc_shift)
  then have "QueueLoop fuel os task (Suc n) = None"
    by (rule Suc.IH)
  with no show ?case by simp
qed


lemma QueueLoop_Some:
  "QueueLoop fuel os task n = Some (ev, n', out) \<Longrightarrow>
   out = Returned \<and> QueueTask task True \<in> set ev"
proof (induction fuel arbitrary: n ev)
  case 0
  then show ?case by simp
next
  case (Suc fuel)
  show ?case
  proof (cases "QueueTask_result os n")
    case True
    with Suc.prems show ?thesis by auto
  next
    case False
    with Suc.prems obtain ev' where "QueueLoop fuel os task (Suc n) = Some (ev', n', out)"
      and "ev = [WaitForSlot, QueueTask task False] @ ev'"
      by (auto simp add: after_eq_Some)
    with Suc.IH [of "Suc n" ev'] show ?thesis by simp
  qed
qed

lemma DumpDir_starts:
  "DumpDir fuel os path n = Some (ev, n', out) \<Longrightarrow>
   \<exists>ev'. ev = report (entering_dir_line path) @ ev'"
  by (cases fuel) (auto simp add: after_eq_Some)

subsection \<open>One entry, and termination of the walk\<close>

lemma DumpEntry_dot:
  "cur_file = ''.'' \<or> cur_file = ''..'' \<Longrightarrow>
   DumpEntry walk fuel os path_real cur_file n = Some ([], n, Returned)"
  by (simp add: DumpEntry_def)


lemma DumpEntry_not_directory:
  assumes "cur_file \<noteq> ''.''" and "cur_file \<noteq> ''..''"
    and "IsDirectory os (MakeExtendedPath os (path_real @ backslash @ cur_file)) = Inr False"
  shows "DumpEntry walk fuel os path_real cur_file n =
     after (report (current_path_line (MakeExtendedPath os (path_real @ backslash @ cur_file))))
       (QueueLoop fuel os (MakeExtendedPath os (path_real @ backslash @ cur_file)) n)"
proof (cases "QueueLoop fuel os (MakeExtendedPath os (path_real @ backslash @ cur_file)) n")
  case None
  with assms show ?thesis
    by (simp add: DumpEntry_def DumpEntry_try_def Let_def)
next
  case (Some r)
  then obtain ev n' out where r: "r = (ev, n', out)"
    by (cases r) auto
  with Some QueueLoop_Some [of fuel os _ n ev n' out] have "out = Returned"
    by simp
  with assms Some r show ?thesis
    by (simp add: DumpEntry_def DumpEntry_try_def Let_def)
qed

lemma DumpEntry_threw:
  assumes "cur_file \<noteq> ''.''" and "cur_file \<noteq> ''..''"
    and "DumpEntry_try walk fuel os (MakeExtendedPath os (path_real @ backslash @ cur_file)) n
           = Some (ev, n', Threw e)"
  shows "DumpEntry walk fuel os path_real cur_file n =
     after (report (current_path_line (MakeExtendedPath os (path_real @ backslash @ cur_file))))
       (Some (DumpEntry_catch ev n' e))"
  using assms by (simp add: DumpEntry_def Let_def)

lemma DumpEntry_catch_cases:
  "DumpEntry_catch ev n e =
     (if e = Error (Some ERROR_SHARING_VIOLATION) then (ev @ report ''Sharing violation.'', n, Returned)
      else if e = Error (Some ERROR_ACCESS_DENIED) then (ev @ report ''Access denied.'', n, Returned)
      else if e = Error (Some ERROR_FILE_NOT_FOUND) then (ev @ report ''File not found.'', n, Returned)
      else (ev, n, Threw e))"
  by (cases e) (simp_all add: DumpEntry_catch_def)







subsection \<open>Rounds of the loop\<close>

lemma DumpEntries_Cons_Returned:
  "DumpEntry walk fuel os path_real cur_file n = Some (ev, n', Returned) \<Longrightarrow>
   DumpEntries walk fuel os path_real (cur_file # rest) n =
     after ev (DumpEntries walk fuel os path_real rest n')"
  by simp

lemma DumpEntries_Cons_not_Returned:
  "DumpEntry walk fuel os path_real cur_file n = Some (ev, n', out) \<Longrightarrow> out \<noteq> Returned \<Longrightarrow>
   DumpEntries walk fuel os path_real (cur_file # rest) n = Some (ev, n', out)"
  by (cases out) simp_all

lemma DumpEntries_Cons_None:
  "DumpEntry walk fuel os path_real cur_file n = None \<Longrightarrow>
   DumpEntries walk fuel os path_real (cur_file # rest) n = None"
  by simp

lemma DumpDir_entries_not_Returned:
  assumes "path \<noteq> []"
    and "FindFiles os (strip_trailing_backslash path @ backslash @ ''*'') = Inr (first, others, last_error)"
    and "DumpEntries (DumpDir fuel os) fuel os (strip_trailing_backslash path) (first # others) n
           = Some (ev, n', out)"
    and "out \<noteq> Returned"
  shows "DumpDir (Suc fuel) os path n = Some (report (entering_dir_line path) @ ev, n', out)"
  using assms by (cases out) (simp_all add: Let_def del: DumpEntries.simps)

lemma count_list_rejections:
  "count_list (concat (replicate k [WaitForSlot, QueueTask task False])) (QueueTask task True) = 0"
  by (induction k) simp_all

lemma DumpDir_unlistable:
  assumes "path \<noteq> []"
    and "FindFiles os (strip_trailing_backslash path @ backslash @ ''*'') = Inl code"
  shows "DumpDir (Suc fuel) os path n =
     (if code = ERROR_FILE_NOT_FOUND
      then Some (report (entering_dir_line path) @ report ''Directory is empty.'', n, Returned)
      else if code = ERROR_ACCESS_DENIED
      then Some (report (entering_dir_line path) @ report ''Access denied to directory.'', n, Returned)
      else Some (report (entering_dir_line path), n, Threw (Error (Some code))))"
  using assms by (simp add: Let_def)

lemma lines_written_report [simp]: "lines_written (report msg @ ev) = msg # lines_written ev"
  by (simp add: report_def)

lemma entering_dir_line_not_empty_report: "entering_dir_line path \<noteq> ''Directory is empty.''"
  by (simp add: entering_dir_line_def)


subsection \<open>Every round accounts for its entry\<close>

lemma DumpEntry_try_cases:
  assumes "DumpEntry_try walk fuel os cur_path n = Some (ev, n', out)"
  shows "(\<exists>e. out = Threw e \<and> ev = [])
       \<or> (ev = report ''Skipping symlink.'' \<and> out = Returned)
       \<or> (IsDirectory os cur_path = Inr True \<and> IsSymlink os cur_path = Inr False
            \<and> walk cur_path n = Some (ev, n', out))
       \<or> (IsDirectory os cur_path = Inr False \<and> QueueLoop fuel os cur_path n = Some (ev, n', out))"
  using assms by (auto simp add: DumpEntry_try_def split: sum.splits bool.splits)

lemma DumpEntry_catch_Returned:
  "DumpEntry_catch ev n e = (seg, n', Returned) \<Longrightarrow>
   \<exists>msg \<in> set skip_lines. seg = ev @ report msg"
  by (auto simp add: DumpEntry_catch_cases skip_lines_def split: if_splits)

lemma DumpEntry_catch_not_Returned:
  "DumpEntry_catch ev n e = (seg, n', out) \<Longrightarrow> out \<noteq> Returned \<Longrightarrow>
   seg = ev \<and> out = Threw e \<and> e \<noteq> Error (Some ERROR_SHARING_VIOLATION)
   \<and> e \<noteq> Error (Some ERROR_ACCESS_DENIED) \<and> e \<noteq> Error (Some ERROR_FILE_NOT_FOUND)"
  by (auto simp add: DumpEntry_catch_cases split: if_splits)

text \<open>What a round on an entry other than \<open>.\<close> and \<open>..\<close> is made of.\<close>

lemma DumpEntry_cases:
  assumes "cur_file \<noteq> ''.''" and "cur_file \<noteq> ''..''"
    and "DumpEntry walk fuel os path_real cur_file n = Some (seg, n', out)"
  shows "\<exists>ev out0. DumpEntry_try walk fuel os (MakeExtendedPath os (path_real @ backslash @ cur_file)) n
            = Some (ev, n', out0)
          \<and> ((\<exists>e. out0 = Threw e
                 \<and> DumpEntry_catch ev n' e
                     = (drop 2 seg, n', out))
              \<or> ((\<forall>e. out0 \<noteq> Threw e) \<and> out = out0 \<and> drop 2 seg = ev))
          \<and> take 2 seg = report (current_path_line (MakeExtendedPath os (path_real @ backslash @ cur_file)))"
proof -
  let ?cur = "MakeExtendedPath os (path_real @ backslash @ cur_file)"
  from assms obtain ev m out0 where t: "DumpEntry_try walk fuel os ?cur n = Some (ev, m, out0)"
    by (cases "DumpEntry_try walk fuel os ?cur n") (auto simp add: DumpEntry_def Let_def)
  show ?thesis
  proof (cases out0)
    case (Threw e)
    obtain s k o' where c: "DumpEntry_catch ev m e = (s, k, o')"
      by (cases "DumpEntry_catch ev m e") auto
    then have "k = m"
      by (auto simp add: DumpEntry_catch_cases split: if_splits)
    with assms t Threw c show ?thesis
      by (auto simp add: DumpEntry_def Let_def report_def)
  next
    case Returned
    with assms t show ?thesis
      by (auto simp add: DumpEntry_def Let_def report_def)
  next
    case Undefined
    with assms t show ?thesis
      by (auto simp add: DumpEntry_def Let_def report_def)
  qed
qed

lemma DumpEntry_accounted:
  assumes "DumpEntry (DumpDir fuel os) fuel os path_real cur_file n = Some (seg, n', Returned)"
  shows "entry_accounted os path_real cur_file seg"
proof (cases "cur_file = ''.'' \<or> cur_file = ''..''")
  case True
  with assms show ?thesis
    by (auto simp add: DumpEntry_def entry_accounted_def)
next
  case False
  let ?cur = "MakeExtendedPath os (path_real @ backslash @ cur_file)"
  from False have names: "cur_file \<noteq> ''.''" "cur_file \<noteq> ''..''"
    by simp_all
  from DumpEntry_cases [OF names assms] obtain ev out0 where
    t: "DumpEntry_try (DumpDir fuel os) fuel os ?cur n = Some (ev, n', out0)"
    and o: "(\<exists>e. out0 = Threw e \<and> DumpEntry_catch ev n' e = (drop 2 seg, n', Returned))
              \<or> ((\<forall>e. out0 \<noteq> Threw e) \<and> Returned = out0 \<and> drop 2 seg = ev)"
    and line: "take 2 seg = report (current_path_line ?cur)"
    by blast
  have seg: "seg = take 2 seg @ drop 2 seg"
    by simp
  have "(IsDirectory os ?cur = Inr True \<and> IsSymlink os ?cur = Inr False
            \<and> WriteNormal (entering_dir_line ?cur) \<in> set seg)
         \<or> (IsDirectory os ?cur = Inr False \<and> QueueTask ?cur True \<in> set seg)
         \<or> (\<exists>msg \<in> set skip_lines. last seg = WriteNormal msg)"
  proof (cases "\<exists>e. out0 = Threw e")
    case True
    with o obtain e where "DumpEntry_catch ev n' e = (drop 2 seg, n', Returned)"
      by blast
    then obtain msg where "msg \<in> set skip_lines" "drop 2 seg = ev @ report msg"
      using DumpEntry_catch_Returned by blast
    then have "last (take 2 seg @ drop 2 seg) = WriteNormal msg"
      by (simp add: report_def)
    with \<open>msg \<in> set skip_lines\<close> show ?thesis
      by auto
  next
    case False
    with o have out0: "out0 = Returned" and ev: "drop 2 seg = ev"
      by auto
    from DumpEntry_try_cases [OF t] out0
    consider "ev = report ''Skipping symlink.''"
      | "IsDirectory os ?cur = Inr True" "IsSymlink os ?cur = Inr False"
        "DumpDir fuel os ?cur n = Some (ev, n', out0)"
      | "IsDirectory os ?cur = Inr False" "QueueLoop fuel os ?cur n = Some (ev, n', out0)"
      by auto
    then show ?thesis
    proof cases
      case 1
      with ev have "last (take 2 seg @ drop 2 seg) = WriteNormal ''Skipping symlink.''"
        by (simp add: report_def)
      then show ?thesis
        by (simp add: skip_lines_def)
    next
      case 2
      from DumpDir_starts [OF 2(3)] ev have "WriteNormal (entering_dir_line ?cur) \<in> set (drop 2 seg)"
        by (auto simp add: report_def)
      then have "WriteNormal (entering_dir_line ?cur) \<in> set seg"
        by (rule in_set_dropD)
      with 2 show ?thesis
        by simp
    next
      case 3
      from QueueLoop_Some [OF 3(2)] ev have "QueueTask ?cur True \<in> set (drop 2 seg)"
        by simp
      then have "QueueTask ?cur True \<in> set seg"
        by (rule in_set_dropD)
      with 3 show ?thesis
        by simp
    qed
  qed
  with names line show ?thesis
    by (simp add: entry_accounted_def Let_def)
qed

lemma DumpEntry_raised:
  assumes "DumpEntry walk fuel os path_real cur_file n = Some (seg, n', out)"
    and "out \<noteq> Returned"
  shows "entry_raised os path_real cur_file seg out"
proof -
  let ?cur = "MakeExtendedPath os (path_real @ backslash @ cur_file)"
  from assms have names: "cur_file \<noteq> ''.''" "cur_file \<noteq> ''..''"
    by (auto simp add: DumpEntry_def)
  from DumpEntry_cases [OF names assms(1)] obtain ev out0 where
    t: "DumpEntry_try walk fuel os ?cur n = Some (ev, n', out0)"
    and o: "(\<exists>e. out0 = Threw e \<and> DumpEntry_catch ev n' e = (drop 2 seg, n', out))
              \<or> ((\<forall>e. out0 \<noteq> Threw e) \<and> out = out0 \<and> drop 2 seg = ev)"
    and line: "take 2 seg = report (current_path_line ?cur)"
    by blast
  have "out \<noteq> Threw (Error (Some ERROR_SHARING_VIOLATION))
      \<and> out \<noteq> Threw (Error (Some ERROR_ACCESS_DENIED))
      \<and> out \<noteq> Threw (Error (Some ERROR_FILE_NOT_FOUND))"
  proof (cases "\<exists>e. out0 = Threw e")
    case True
    with o obtain e where "DumpEntry_catch ev n' e = (drop 2 seg, n', out)"
      by blast
    from DumpEntry_catch_not_Returned [OF this assms(2)] show ?thesis
      by simp
  next
    case False
    with o have "out = out0"
      by auto
    with False show ?thesis
      by auto
  qed
  with names line assms(2) show ?thesis
    by (simp add: entry_raised_def)
qed

lemma DumpEntries_accounted:
  "DumpEntries (DumpDir fuel os) fuel os path_real names n = Some (ev, n', out) \<Longrightarrow>
   \<exists>segs. ev = concat segs \<and>
     (out = Returned \<longrightarrow> list_all2 (entry_accounted os path_real) names segs) \<and>
     (out \<noteq> Returned \<longrightarrow>
        (\<exists>k<length names. length segs = Suc k
           \<and> list_all2 (entry_accounted os path_real) (take k names) (take k segs)
           \<and> entry_raised os path_real (names ! k) (segs ! k) out))"
proof (induction names arbitrary: n ev)
  case Nil
  then have "ev = concat [] \<and> out = Returned"
    by simp
  then show ?case
    by (metis list_all2_Nil)
next
  case (Cons cur_file rest)
  let ?walk = "DumpDir fuel os"
  from Cons.prems obtain seg m o1 where
    e: "DumpEntry ?walk fuel os path_real cur_file n = Some (seg, m, o1)"
    by (cases "DumpEntry ?walk fuel os path_real cur_file n") auto
  show ?case
  proof (cases "o1 = Returned")
    case True
    with e Cons.prems obtain ev2 where
      r: "DumpEntries ?walk fuel os path_real rest m = Some (ev2, n', out)" and ev: "ev = seg @ ev2"
      by (auto simp add: after_eq_Some)
    from Cons.IH [OF r] obtain segs where
      s: "ev2 = concat segs"
      "out = Returned \<longrightarrow> list_all2 (entry_accounted os path_real) rest segs"
      "out \<noteq> Returned \<longrightarrow>
        (\<exists>k<length rest. length segs = Suc k
           \<and> list_all2 (entry_accounted os path_real) (take k rest) (take k segs)
           \<and> entry_raised os path_real (rest ! k) (segs ! k) out)"
      by blast
    from e True have acc: "entry_accounted os path_real cur_file seg"
      using DumpEntry_accounted by blast
    have "ev = concat (seg # segs)"
      using ev s(1) by simp
    moreover have "list_all2 (entry_accounted os path_real) (cur_file # rest) (seg # segs)"
      if "out = Returned"
      using that acc s(2) by simp
    moreover have "\<exists>k<length (cur_file # rest). length (seg # segs) = Suc k
           \<and> list_all2 (entry_accounted os path_real) (take k (cur_file # rest)) (take k (seg # segs))
           \<and> entry_raised os path_real ((cur_file # rest) ! k) ((seg # segs) ! k) out"
      if "out \<noteq> Returned"
    proof -
      from that s(3) obtain k where k: "k < length rest" "length segs = Suc k"
        "list_all2 (entry_accounted os path_real) (take k rest) (take k segs)"
        "entry_raised os path_real (rest ! k) (segs ! k) out"
        by blast
      then have "Suc k < length (cur_file # rest) \<and> length (seg # segs) = Suc (Suc k)
           \<and> list_all2 (entry_accounted os path_real) (take (Suc k) (cur_file # rest)) (take (Suc k) (seg # segs))
           \<and> entry_raised os path_real ((cur_file # rest) ! Suc k) ((seg # segs) ! Suc k) out"
        using acc by simp
      then show ?thesis
        by blast
    qed
    ultimately show ?thesis
      by blast
  next
    case False
    with e Cons.prems have same: "ev = seg" "n' = m" "out = o1"
      by (cases o1; simp)+
    with e False have "entry_raised os path_real cur_file seg out"
      using DumpEntry_raised by blast
    then have "0 < length (cur_file # rest) \<and> length [seg] = Suc 0
           \<and> list_all2 (entry_accounted os path_real) (take 0 (cur_file # rest)) (take 0 [seg])
           \<and> entry_raised os path_real ((cur_file # rest) ! 0) ([seg] ! 0) out"
      by simp
    moreover have "ev = concat [seg]"
      using same by simp
    moreover have "out \<noteq> Returned"
      using same False by simp
    ultimately show ?thesis
      by blast
  qed
qed

lemma DumpDir_listing_cases:
  assumes "path \<noteq> []"
    and "FindFiles os (strip_trailing_backslash path @ backslash @ ''*'') = Inr (first, others, last_error)"
    and "DumpDir (Suc fuel) os path n = Some (ev, n', out)"
  shows "\<exists>ev0 out0. ev = report (entering_dir_line path) @ ev0
     \<and> DumpEntries (DumpDir fuel os) fuel os (strip_trailing_backslash path) (first # others) n
          = Some (ev0, n', out0)
     \<and> (if out0 = Returned
         then out = (if last_error = ERROR_NO_MORE_FILES then Returned
                     else Threw (Error (Some last_error)))
         else out = out0)"
proof -
  let ?loop = "DumpEntries (DumpDir fuel os) fuel os (strip_trailing_backslash path) (first # others) n"
  from assms obtain ev0 m out0 where l: "?loop = Some (ev0, m, out0)"
    by (cases ?loop) (auto simp add: Let_def simp del: DumpEntries.simps)
  with assms show ?thesis
    by (cases out0) (auto simp add: Let_def simp del: DumpEntries.simps split: if_splits)
qed

text \<open>The example tree is cyclic: below any path, \<open>loop\<close> is a directory that lists \<open>loop\<close> again.\<close>

lemma ends_with_append: "ends_with s (p @ s)"
  by (simp add: ends_with_def)

lemma os_cycle_is_cyclic:
  "IsDirectory os_cycle (p @ backslash @ ''loop'') = Inr True
   \<and> IsSymlink os_cycle (p @ backslash @ ''loop'') = Inr True
   \<and> FindFiles os_cycle ((p @ backslash @ ''loop'') @ backslash @ ''*'')
       = Inr (''.'', [''..'', ''a.exe'', ''loop'', ''sub''], ERROR_NO_MORE_FILES)"
proof -
  have "ends_with ''loop'' ((p @ backslash) @ ''loop'')"
    by (rule ends_with_append)
  moreover have "\<not> ends_with (''sub'' @ backslash @ ''*'') ((p @ backslash @ ''loop'') @ backslash @ ''*'')"
    by (simp add: ends_with_def backslash_def)
  ultimately show ?thesis
    by (simp add: os_cycle_def)
qed

subsection \<open>Claims about \<open>DumpDir\<close>\<close>




text \<open>
  Claim C4. An exception \<open>e\<close> is raised while the entry \<open>cur_file\<close> is classified or
  recursed into: \<open>IsDirectory\<close> throws it, or the entry is a directory and \<open>IsSymlink\<close>
  throws it, or the entry is a directory that is not a symlink and the recursive
  \<open>DumpDir\<close> throws it after the events \<open>ev\<close>. If \<open>e\<close> is a \<open>hadesmem::Error\<close> whose
  code is sharing violation, access denied or file not found, the walker writes the
  matching line and the loop goes on with the remaining entries \<open>rest\<close>. Any other
  exception (another code, an \<open>Error\<close> without a code, another type) leaves the loop at
  this entry; and whatever is thrown out of the loop is thrown out of \<open>DumpDir\<close>, to
  the caller of this directory's walk.
\<close>

theorem C4_entry_errors:
  assumes "cur_file \<noteq> ''.''" and "cur_file \<noteq> ''..''"
    and "(IsDirectory os (MakeExtendedPath os (path_real @ backslash @ cur_file)) = Inl e
            \<and> ev = [] \<and> n' = n)
       \<or> (IsDirectory os (MakeExtendedPath os (path_real @ backslash @ cur_file)) = Inr True
            \<and> IsSymlink os (MakeExtendedPath os (path_real @ backslash @ cur_file)) = Inl e
            \<and> ev = [] \<and> n' = n)
       \<or> (IsDirectory os (MakeExtendedPath os (path_real @ backslash @ cur_file)) = Inr True
            \<and> IsSymlink os (MakeExtendedPath os (path_real @ backslash @ cur_file)) = Inr False
            \<and> walk (MakeExtendedPath os (path_real @ backslash @ cur_file)) n = Some (ev, n', Threw e))"
  shows "(e = Error (Some ERROR_SHARING_VIOLATION) \<longrightarrow>
            DumpEntries walk fuel os path_real (cur_file # rest) n =
              after (report (current_path_line (MakeExtendedPath os (path_real @ backslash @ cur_file)))
                       @ ev @ report ''Sharing violation.'')
                (DumpEntries walk fuel os path_real rest n'))
       \<and> (e = Error (Some ERROR_ACCESS_DENIED) \<longrightarrow>
            DumpEntries walk fuel os path_real (cur_file # rest) n =
              after (report (current_path_line (MakeExtendedPath os (path_real @ backslash @ cur_file)))
                       @ ev @ report ''Access denied.'')
                (DumpEntries walk fuel os path_real rest n'))
       \<and> (e = Error (Some ERROR_FILE_NOT_FOUND) \<longrightarrow>
            DumpEntries walk fuel os path_real (cur_file # rest) n =
              after (report (current_path_line (MakeExtendedPath os (path_real @ backslash @ cur_file)))
                       @ ev @ report ''File not found.'')
                (DumpEntries walk fuel os path_real rest n'))
       \<and> (e \<noteq> Error (Some ERROR_SHARING_VIOLATION) \<and> e \<noteq> Error (Some ERROR_ACCESS_DENIED)
            \<and> e \<noteq> Error (Some ERROR_FILE_NOT_FOUND) \<longrightarrow>
            DumpEntries walk fuel os path_real (cur_file # rest) n =
              Some (report (current_path_line (MakeExtendedPath os (path_real @ backslash @ cur_file))) @ ev,
                    n', Threw e))
       \<and> (path \<noteq> []
            \<and> FindFiles os (strip_trailing_backslash path @ backslash @ ''*'') = Inr (first, others, last_error)
            \<and> DumpEntries (DumpDir fuel os) fuel os (strip_trailing_backslash path) (first # others) m
                 = Some (ev', m', Threw e') \<longrightarrow>
            DumpDir (Suc fuel) os path m = Some (report (entering_dir_line path) @ ev', m', Threw e'))"
proof -
  let ?cur = "MakeExtendedPath os (path_real @ backslash @ cur_file)"
  let ?line = "report (current_path_line ?cur)"
  have codes: "ERROR_SHARING_VIOLATION \<noteq> ERROR_ACCESS_DENIED"
    "ERROR_SHARING_VIOLATION \<noteq> ERROR_FILE_NOT_FOUND" "ERROR_ACCESS_DENIED \<noteq> ERROR_FILE_NOT_FOUND"
    by (simp_all add: ERROR_SHARING_VIOLATION_def ERROR_ACCESS_DENIED_def ERROR_FILE_NOT_FOUND_def)
  from assms(3) have left: "DumpEntry_try walk fuel os ?cur n = Some (ev, n', Threw e)"
  proof (elim disjE conjE)
    assume "IsDirectory os ?cur = Inl e" "ev = []" "n' = n"
    then show ?thesis
      by (simp add: DumpEntry_try_def)
  next
    assume "IsDirectory os ?cur = Inr True" "IsSymlink os ?cur = Inl e" "ev = []" "n' = n"
    then show ?thesis
      by (simp add: DumpEntry_try_def)
  next
    assume "IsDirectory os ?cur = Inr True" "IsSymlink os ?cur = Inr False"
      "walk ?cur n = Some (ev, n', Threw e)"
    then show ?thesis
      by (simp add: DumpEntry_try_def)
  qed
  have entry: "DumpEntry walk fuel os path_real cur_file n = after ?line (Some (DumpEntry_catch ev n' e))"
    using assms(1,2) left by (rule DumpEntry_threw)
  have skip: "DumpEntries walk fuel os path_real (cur_file # rest) n =
      after (?line @ ev @ report msg) (DumpEntries walk fuel os path_real rest n')"
    if "DumpEntry_catch ev n' e = (ev @ report msg, n', Returned)" for msg
  proof -
    from entry that have "DumpEntry walk fuel os path_real cur_file n
        = Some (?line @ ev @ report msg, n', Returned)"
      by simp
    then show ?thesis
      by (rule DumpEntries_Cons_Returned)
  qed
  have a: "DumpEntries walk fuel os path_real (cur_file # rest) n =
      after (?line @ ev @ report ''Sharing violation.'') (DumpEntries walk fuel os path_real rest n')"
    if "e = Error (Some ERROR_SHARING_VIOLATION)"
    using that by (intro skip) (simp add: DumpEntry_catch_cases)
  have b: "DumpEntries walk fuel os path_real (cur_file # rest) n =
      after (?line @ ev @ report ''Access denied.'') (DumpEntries walk fuel os path_real rest n')"
    if "e = Error (Some ERROR_ACCESS_DENIED)"
    using that codes by (intro skip) (simp add: DumpEntry_catch_cases)
  have c: "DumpEntries walk fuel os path_real (cur_file # rest) n =
      after (?line @ ev @ report ''File not found.'') (DumpEntries walk fuel os path_real rest n')"
    if "e = Error (Some ERROR_FILE_NOT_FOUND)"
    using that codes by (intro skip) (simp add: DumpEntry_catch_cases)
  have d: "DumpEntries walk fuel os path_real (cur_file # rest) n = Some (?line @ ev, n', Threw e)"
    if "e \<noteq> Error (Some ERROR_SHARING_VIOLATION)" "e \<noteq> Error (Some ERROR_ACCESS_DENIED)"
      "e \<noteq> Error (Some ERROR_FILE_NOT_FOUND)"
  proof -
    from entry that have "DumpEntry walk fuel os path_real cur_file n = Some (?line @ ev, n', Threw e)"
      by (simp add: DumpEntry_catch_cases)
    then show ?thesis
      by (rule DumpEntries_Cons_not_Returned) simp
  qed
  have up: "DumpDir (Suc fuel) os path m = Some (report (entering_dir_line path) @ ev', m', Threw e')"
    if "path \<noteq> []"
      "FindFiles os (strip_trailing_backslash path @ backslash @ ''*'') = Inr (first, others, last_error)"
      "DumpEntries (DumpDir fuel os) fuel os (strip_trailing_backslash path) (first # others) m
                 = Some (ev', m', Threw e')"
    using that by (rule DumpDir_entries_not_Returned) simp
  from a b c d up show ?thesis
    by blast
qed

theorem C4_witness:
  "IsDirectory (os_errors 3) (MakeExtendedPath (os_errors 3) (''C:'' @ backslash @ ''locked''))
     = Inl (Error (Some ERROR_SHARING_VIOLATION))
   \<and> DumpEntries (DumpDir 1 (os_errors 3)) 1 (os_errors 3) ''C:'' [''locked'', ''ok.exe''] 0 =
       Some ([WriteNewline, WriteNormal (current_path_line (''C:'' @ backslash @ ''locked'')),
              WriteNewline, WriteNormal ''Sharing violation.'',
              WriteNewline, WriteNormal (current_path_line (''C:'' @ backslash @ ''ok.exe'')),
              WaitForSlot, QueueTask (''C:'' @ backslash @ ''ok.exe'') True], 1, Returned)
   \<and> IsDirectory (os_errors 3) (MakeExtendedPath (os_errors 3) (''C:'' @ backslash @ ''broken''))
     = Inl (Error (Some 3))
   \<and> DumpEntries (DumpDir 1 (os_errors 3)) 1 (os_errors 3) ''C:'' [''broken'', ''ok.exe''] 0 =
       Some ([WriteNewline, WriteNormal (current_path_line (''C:'' @ backslash @ ''broken''))],
             0, Threw (Error (Some 3)))
   \<and> IsSymlink (os_raising ERROR_FILE_NOT_FOUND 3)
        (MakeExtendedPath (os_raising ERROR_FILE_NOT_FOUND 3) (''C:'' @ backslash @ ''odd''))
     = Inl (Error (Some ERROR_FILE_NOT_FOUND))
   \<and> DumpEntries (DumpDir 1 (os_raising ERROR_FILE_NOT_FOUND 3)) 1 (os_raising ERROR_FILE_NOT_FOUND 3)
        ''C:'' [''odd'', ''ok.exe''] 0 =
       Some ([WriteNewline, WriteNormal (current_path_line (''C:'' @ backslash @ ''odd'')),
              WriteNewline, WriteNormal ''File not found.'',
              WriteNewline, WriteNormal (current_path_line (''C:'' @ backslash @ ''ok.exe'')),
              WaitForSlot, QueueTask (''C:'' @ backslash @ ''ok.exe'') True], 1, Returned)
   \<and> DumpDir 1 (os_raising ERROR_FILE_NOT_FOUND 3) (''C:'' @ backslash @ ''sub'') 0 =
       Some ([WriteNewline, WriteNormal (entering_dir_line (''C:'' @ backslash @ ''sub''))],
             0, Threw (Error (Some 3)))
   \<and> DumpEntries (DumpDir 1 (os_raising ERROR_FILE_NOT_FOUND 3)) 1 (os_raising ERROR_FILE_NOT_FOUND 3)
        ''C:'' [''sub'', ''ok.exe''] 0 =
       Some ([WriteNewline, WriteNormal (current_path_line (''C:'' @ backslash @ ''sub'')),
              WriteNewline, WriteNormal (entering_dir_line (''C:'' @ backslash @ ''sub''))],
             0, Threw (Error (Some 3)))
   \<and> DumpDir 2 (os_raising ERROR_FILE_NOT_FOUND 3) ''C:'' 0 =
       Some ([WriteNewline, WriteNormal (entering_dir_line ''C:''),
              WriteNewline, WriteNormal (current_path_line (''C:'' @ backslash @ ''odd'')),
              WriteNewline, WriteNormal ''File not found.'',
              WriteNewline, WriteNormal (current_path_line (''C:'' @ backslash @ ''sub'')),
              WriteNewline, WriteNormal (entering_dir_line (''C:'' @ backslash @ ''sub''))],
             0, Threw (Error (Some 3)))
   \<and> IsSymlink (os_raising 3 ERROR_SHARING_VIOLATION)
        (MakeExtendedPath (os_raising 3 ERROR_SHARING_VIOLATION) (''C:'' @ backslash @ ''odd''))
     = Inl (Error (Some 3))
   \<and> DumpEntries (DumpDir 1 (os_raising 3 ERROR_SHARING_VIOLATION)) 1 (os_raising 3 ERROR_SHARING_VIOLATION)
        ''C:'' [''odd'', ''ok.exe''] 0 =
       Some ([WriteNewline, WriteNormal (current_path_line (''C:'' @ backslash @ ''odd''))],
             0, Threw (Error (Some 3)))
   \<and> DumpDir 1 (os_raising 3 ERROR_SHARING_VIOLATION) (''C:'' @ backslash @ ''sub'') 0 =
       Some ([WriteNewline, WriteNormal (entering_dir_line (''C:'' @ backslash @ ''sub''))],
             0, Threw (Error (Some ERROR_SHARING_VIOLATION)))
   \<and> DumpEntries (DumpDir 1 (os_raising 3 ERROR_SHARING_VIOLATION)) 1 (os_raising 3 ERROR_SHARING_VIOLATION)
        ''C:'' [''sub'', ''ok.exe''] 0 =
       Some ([WriteNewline, WriteNormal (current_path_line (''C:'' @ backslash @ ''sub'')),
              WriteNewline, WriteNormal (entering_dir_line (''C:'' @ backslash @ ''sub'')),
              WriteNewline, WriteNormal ''Sharing violation.'',
              WriteNewline, WriteNormal (current_path_line (''C:'' @ backslash @ ''ok.exe'')),
              WaitForSlot, QueueTask (''C:'' @ backslash @ ''ok.exe'') True], 1, Returned)"
proof -
  let ?os = "os_errors 3"
  let ?walk = "DumpDir 1 ?os"
  let ?os1 = "os_raising ERROR_FILE_NOT_FOUND 3"
  let ?walk1 = "DumpDir 1 ?os1"
  let ?os2 = "os_raising 3 ERROR_SHARING_VIOLATION"
  let ?walk2 = "DumpDir 1 ?os2"
  have names: "''locked'' \<noteq> ''.''" "''locked'' \<noteq> ''..''" "''broken'' \<noteq> ''.''" "''broken'' \<noteq> ''..''"
    "''odd'' \<noteq> ''.''" "''odd'' \<noteq> ''..''" "''sub'' \<noteq> ''.''" "''sub'' \<noteq> ''..''"
    by simp_all
  have fatal: "Error (Some 3) \<noteq> Error (Some ERROR_SHARING_VIOLATION)"
    "Error (Some 3) \<noteq> Error (Some ERROR_ACCESS_DENIED)"
    "Error (Some 3) \<noteq> Error (Some ERROR_FILE_NOT_FOUND)"
    by (simp_all add: ERROR_SHARING_VIOLATION_def ERROR_ACCESS_DENIED_def ERROR_FILE_NOT_FOUND_def)
  have path: "MakeExtendedPath ?os p = p" "MakeExtendedPath ?os1 p = p" "MakeExtendedPath ?os2 p = p" for p
    by (simp_all add: os_errors_def os_raising_def)
  \<comment> \<open>\<open>IsDirectory\<close> throws\<close>
  have locked: "IsDirectory ?os (MakeExtendedPath ?os (''C:'' @ backslash @ ''locked''))
      = Inl (Error (Some ERROR_SHARING_VIOLATION))"
    by code_simp
  have broken: "IsDirectory ?os (MakeExtendedPath ?os (''C:'' @ backslash @ ''broken''))
      = Inl (Error (Some 3))"
    by code_simp
  have rest: "DumpEntries ?walk 1 ?os ''C:'' [''ok.exe''] 0 =
      Some ([WriteNewline, WriteNormal (current_path_line (''C:'' @ backslash @ ''ok.exe'')),
             WaitForSlot, QueueTask (''C:'' @ backslash @ ''ok.exe'') True], 1, Returned)"
    by code_simp
  from C4_entry_errors [OF names(1,2), where os = ?os and path_real = "''C:''" and ev = "[]"
      and n = 0 and n' = 0 and walk = ?walk and fuel = 1 and rest = "[''ok.exe'']"] locked
  have "DumpEntries ?walk 1 ?os ''C:'' [''locked'', ''ok.exe''] 0 =
      after (report (current_path_line (MakeExtendedPath ?os (''C:'' @ backslash @ ''locked'')))
               @ [] @ report ''Sharing violation.'')
        (DumpEntries ?walk 1 ?os ''C:'' [''ok.exe''] 0)"
    by blast
  then have a: "DumpEntries ?walk 1 ?os ''C:'' [''locked'', ''ok.exe''] 0 =
       Some ([WriteNewline, WriteNormal (current_path_line (''C:'' @ backslash @ ''locked'')),
              WriteNewline, WriteNormal ''Sharing violation.'',
              WriteNewline, WriteNormal (current_path_line (''C:'' @ backslash @ ''ok.exe'')),
              WaitForSlot, QueueTask (''C:'' @ backslash @ ''ok.exe'') True], 1, Returned)"
    unfolding path rest by (simp add: report_def)
  from C4_entry_errors [OF names(3,4), where os = ?os and path_real = "''C:''" and ev = "[]"
      and n = 0 and n' = 0 and walk = ?walk and fuel = 1 and rest = "[''ok.exe'']"] broken fatal
  have "DumpEntries ?walk 1 ?os ''C:'' [''broken'', ''ok.exe''] 0 =
      Some (report (current_path_line (MakeExtendedPath ?os (''C:'' @ backslash @ ''broken''))) @ [],
            0, Threw (Error (Some 3)))"
    by blast
  then have b: "DumpEntries ?walk 1 ?os ''C:'' [''broken'', ''ok.exe''] 0 =
       Some ([WriteNewline, WriteNormal (current_path_line (''C:'' @ backslash @ ''broken''))],
             0, Threw (Error (Some 3)))"
    unfolding path by (simp add: report_def)
  \<comment> \<open>\<open>IsSymlink\<close> throws a reported code; the recursive walk throws another code\<close>
  have odd1: "IsDirectory ?os1 (MakeExtendedPath ?os1 (''C:'' @ backslash @ ''odd'')) = Inr True"
    "IsSymlink ?os1 (MakeExtendedPath ?os1 (''C:'' @ backslash @ ''odd''))
       = Inl (Error (Some ERROR_FILE_NOT_FOUND))"
    by code_simp+
  have sub1: "IsDirectory ?os1 (MakeExtendedPath ?os1 (''C:'' @ backslash @ ''sub'')) = Inr True"
    "IsSymlink ?os1 (MakeExtendedPath ?os1 (''C:'' @ backslash @ ''sub'')) = Inr False"
    "?walk1 (MakeExtendedPath ?os1 (''C:'' @ backslash @ ''sub'')) 0 =
       Some ([WriteNewline, WriteNormal (entering_dir_line (''C:'' @ backslash @ ''sub''))],
             0, Threw (Error (Some 3)))"
    by code_simp+
  have rest1: "DumpEntries ?walk1 1 ?os1 ''C:'' [''ok.exe''] 0 =
      Some ([WriteNewline, WriteNormal (current_path_line (''C:'' @ backslash @ ''ok.exe'')),
             WaitForSlot, QueueTask (''C:'' @ backslash @ ''ok.exe'') True], 1, Returned)"
    by code_simp
  have root1: "''C:'' \<noteq> []"
    "FindFiles ?os1 (strip_trailing_backslash ''C:'' @ backslash @ ''*'')
       = Inr (''.'', [''..'', ''odd'', ''sub'', ''ok.exe''], ERROR_NO_MORE_FILES)"
    "DumpEntries ?walk1 1 ?os1 (strip_trailing_backslash ''C:'')
        (''.'' # [''..'', ''odd'', ''sub'', ''ok.exe'']) 0
       = Some ([WriteNewline, WriteNormal (current_path_line (''C:'' @ backslash @ ''odd'')),
              WriteNewline, WriteNormal ''File not found.'',
              WriteNewline, WriteNormal (current_path_line (''C:'' @ backslash @ ''sub'')),
              WriteNewline, WriteNormal (entering_dir_line (''C:'' @ backslash @ ''sub''))],
             0, Threw (Error (Some 3)))"
    by code_simp+
  from C4_entry_errors [OF names(5,6), where os = ?os1 and path_real = "''C:''" and ev = "[]"
      and n = 0 and n' = 0 and walk = ?walk1 and fuel = 1 and rest = "[''ok.exe'']"] odd1
  have "DumpEntries ?walk1 1 ?os1 ''C:'' [''odd'', ''ok.exe''] 0 =
      after (report (current_path_line (MakeExtendedPath ?os1 (''C:'' @ backslash @ ''odd'')))
               @ [] @ report ''File not found.'')
        (DumpEntries ?walk1 1 ?os1 ''C:'' [''ok.exe''] 0)"
    by blast
  then have c: "DumpEntries ?walk1 1 ?os1 ''C:'' [''odd'', ''ok.exe''] 0 =
       Some ([WriteNewline, WriteNormal (current_path_line (''C:'' @ backslash @ ''odd'')),
              WriteNewline, WriteNormal ''File not found.'',
              WriteNewline, WriteNormal (current_path_line (''C:'' @ backslash @ ''ok.exe'')),
              WaitForSlot, QueueTask (''C:'' @ backslash @ ''ok.exe'') True], 1, Returned)"
    unfolding path rest1 by (simp add: report_def)
  from C4_entry_errors [OF names(7,8), where os = ?os1 and path_real = "''C:''"
      and ev = "[WriteNewline, WriteNormal (entering_dir_line (''C:'' @ backslash @ ''sub''))]"
      and n = 0 and n' = 0 and walk = ?walk1 and fuel = 1 and rest = "[''ok.exe'']"
      and path = "''C:''" and m = 0] sub1 fatal root1
  have "DumpEntries ?walk1 1 ?os1 ''C:'' [''sub'', ''ok.exe''] 0 =
      Some (report (current_path_line (MakeExtendedPath ?os1 (''C:'' @ backslash @ ''sub'')))
              @ [WriteNewline, WriteNormal (entering_dir_line (''C:'' @ backslash @ ''sub''))],
            0, Threw (Error (Some 3)))"
    and "DumpDir (Suc 1) ?os1 ''C:'' 0 =
       Some (report (entering_dir_line ''C:'') @
             [WriteNewline, WriteNormal (current_path_line (''C:'' @ backslash @ ''odd'')),
              WriteNewline, WriteNormal ''File not found.'',
              WriteNewline, WriteNormal (current_path_line (''C:'' @ backslash @ ''sub'')),
              WriteNewline, WriteNormal (entering_dir_line (''C:'' @ backslash @ ''sub''))],
             0, Threw (Error (Some 3)))"
    by blast+
  then have d: "DumpEntries ?walk1 1 ?os1 ''C:'' [''sub'', ''ok.exe''] 0 =
       Some ([WriteNewline, WriteNormal (current_path_line (''C:'' @ backslash @ ''sub'')),
              WriteNewline, WriteNormal (entering_dir_line (''C:'' @ backslash @ ''sub''))],
             0, Threw (Error (Some 3)))"
    and e: "DumpDir 2 ?os1 ''C:'' 0 =
       Some ([WriteNewline, WriteNormal (entering_dir_line ''C:''),
              WriteNewline, WriteNormal (current_path_line (''C:'' @ backslash @ ''odd'')),
              WriteNewline, WriteNormal ''File not found.'',
              WriteNewline, WriteNormal (current_path_line (''C:'' @ backslash @ ''sub'')),
              WriteNewline, WriteNormal (entering_dir_line (''C:'' @ backslash @ ''sub''))],
             0, Threw (Error (Some 3)))"
    unfolding path by (simp_all add: report_def numeral_2_eq_2 del: DumpDir.simps)
  \<comment> \<open>\<open>IsSymlink\<close> throws another code; the recursive walk throws a reported code\<close>
  have odd2: "IsDirectory ?os2 (MakeExtendedPath ?os2 (''C:'' @ backslash @ ''odd'')) = Inr True"
    "IsSymlink ?os2 (MakeExtendedPath ?os2 (''C:'' @ backslash @ ''odd'')) = Inl (Error (Some 3))"
    by code_simp+
  have sub2: "IsDirectory ?os2 (MakeExtendedPath ?os2 (''C:'' @ backslash @ ''sub'')) = Inr True"
    "IsSymlink ?os2 (MakeExtendedPath ?os2 (''C:'' @ backslash @ ''sub'')) = Inr False"
    "?walk2 (MakeExtendedPath ?os2 (''C:'' @ backslash @ ''sub'')) 0 =
       Some ([WriteNewline, WriteNormal (entering_dir_line (''C:'' @ backslash @ ''sub''))],
             0, Threw (Error (Some ERROR_SHARING_VIOLATION)))"
    by code_simp+
  have rest2: "DumpEntries ?walk2 1 ?os2 ''C:'' [''ok.exe''] 0 =
      Some ([WriteNewline, WriteNormal (current_path_line (''C:'' @ backslash @ ''ok.exe'')),
             WaitForSlot, QueueTask (''C:'' @ backslash @ ''ok.exe'') True], 1, Returned)"
    by code_simp
  from C4_entry_errors [OF names(5,6), where os = ?os2 and path_real = "''C:''" and ev = "[]"
      and n = 0 and n' = 0 and walk = ?walk2 and fuel = 1 and rest = "[''ok.exe'']"] odd2 fatal
  have "DumpEntries ?walk2 1 ?os2 ''C:'' [''odd'', ''ok.exe''] 0 =
      Some (report (current_path_line (MakeExtendedPath ?os2 (''C:'' @ backslash @ ''odd''))) @ [],
            0, Threw (Error (Some 3)))"
    by blast
  then have f: "DumpEntries ?walk2 1 ?os2 ''C:'' [''odd'', ''ok.exe''] 0 =
       Some ([WriteNewline, WriteNormal (current_path_line (''C:'' @ backslash @ ''odd''))],
             0, Threw (Error (Some 3)))"
    unfolding path by (simp add: report_def)
  from C4_entry_errors [OF names(7,8), where os = ?os2 and path_real = "''C:''"
      and ev = "[WriteNewline, WriteNormal (entering_dir_line (''C:'' @ backslash @ ''sub''))]"
      and n = 0 and n' = 0 and walk = ?walk2 and fuel = 1 and rest = "[''ok.exe'']"] sub2
  have "DumpEntries ?walk2 1 ?os2 ''C:'' [''sub'', ''ok.exe''] 0 =
      after (report (current_path_line (MakeExtendedPath ?os2 (''C:'' @ backslash @ ''sub'')))
               @ [WriteNewline, WriteNormal (entering_dir_line (''C:'' @ backslash @ ''sub''))]
               @ report ''Sharing violation.'')
        (DumpEntries ?walk2 1 ?os2 ''C:'' [''ok.exe''] 0)"
    by blast
  then have g: "DumpEntries ?walk2 1 ?os2 ''C:'' [''sub'', ''ok.exe''] 0 =
       Some ([WriteNewline, WriteNormal (current_path_line (''C:'' @ backslash @ ''sub'')),
              WriteNewline, WriteNormal (entering_dir_line (''C:'' @ backslash @ ''sub'')),
              WriteNewline, WriteNormal ''Sharing violation.'',
              WriteNewline, WriteNormal (current_path_line (''C:'' @ backslash @ ''ok.exe'')),
              WaitForSlot, QueueTask (''C:'' @ backslash @ ''ok.exe'') True], 1, Returned)"
    unfolding path rest2 by (simp add: report_def)
  from sub1(3) have w1: "DumpDir 1 ?os1 (''C:'' @ backslash @ ''sub'') 0 =
       Some ([WriteNewline, WriteNormal (entering_dir_line (''C:'' @ backslash @ ''sub''))],
             0, Threw (Error (Some 3)))"
    unfolding path .
  from sub2(3) have w2: "DumpDir 1 ?os2 (''C:'' @ backslash @ ''sub'') 0 =
       Some ([WriteNewline, WriteNormal (entering_dir_line (''C:'' @ backslash @ ''sub''))],
             0, Threw (Error (Some ERROR_SHARING_VIOLATION)))"
    unfolding path .
  from locked a broken b odd1(2) c w1 d e odd2(2) f w2 g show ?thesis
    by blast
qed

text \<open>
  Claim C5, as stated, fails for a sharing violation: when \<open>FindFirstFileW\<close> fails,
  lines 158 to 169 return only for file not found and access denied. A sharing
  violation is thrown as \<open>hadesmem::Error\<close> with the code, like every other code.
\<close>

theorem C5_counterexample:
  "FindFiles (os_unlistable ERROR_SHARING_VIOLATION) (strip_trailing_backslash ''C:'' @ backslash @ ''*'')
     = Inl ERROR_SHARING_VIOLATION
   \<and> DumpDir 1 (os_unlistable ERROR_SHARING_VIOLATION) ''C:'' 0 =
       Some ([WriteNewline, WriteNormal (entering_dir_line ''C:'')], 0,
             Threw (Error (Some ERROR_SHARING_VIOLATION)))"
  by code_simp

text \<open>
  Claim C5, amended. When \<open>FindFirstFileW\<close> fails on a non-empty path: with file not
  found the walk writes \<open>Directory is empty.\<close>, once, and returns; with access denied it
  writes \<open>Access denied to directory.\<close> and returns; with any other code, sharing
  violation included, it throws \<open>hadesmem::Error\<close> carrying that code, having written
  only the line that announces the directory.
\<close>

theorem C5_enumeration_start_failure:
  assumes "path \<noteq> []"
    and "FindFiles os (strip_trailing_backslash path @ backslash @ ''*'') = Inl code"
  shows "(code = ERROR_FILE_NOT_FOUND \<longrightarrow>
            DumpDir (Suc fuel) os path n =
              Some (report (entering_dir_line path) @ report ''Directory is empty.'', n, Returned)
            \<and> count_list (lines_written (report (entering_dir_line path) @ report ''Directory is empty.''))
                 ''Directory is empty.'' = 1)
       \<and> (code = ERROR_ACCESS_DENIED \<longrightarrow>
            DumpDir (Suc fuel) os path n =
              Some (report (entering_dir_line path) @ report ''Access denied to directory.'', n, Returned))
       \<and> (code \<noteq> ERROR_FILE_NOT_FOUND \<and> code \<noteq> ERROR_ACCESS_DENIED \<longrightarrow>
            DumpDir (Suc fuel) os path n =
              Some (report (entering_dir_line path), n, Threw (Error (Some code))))"
proof -
  have "count_list (lines_written (report (entering_dir_line path) @ report ''Directory is empty.''))
          ''Directory is empty.'' = 1"
    using entering_dir_line_not_empty_report [of path] by (simp add: report_def)
  moreover have "ERROR_ACCESS_DENIED \<noteq> ERROR_FILE_NOT_FOUND"
    by (simp add: ERROR_ACCESS_DENIED_def ERROR_FILE_NOT_FOUND_def)
  ultimately show ?thesis
    using DumpDir_unlistable [OF assms, of fuel n] by simp
qed

theorem C5_witness:
  "DumpDir 1 (os_unlistable ERROR_FILE_NOT_FOUND) ''C:'' 0 =
     Some ([WriteNewline, WriteNormal (entering_dir_line ''C:''),
            WriteNewline, WriteNormal ''Directory is empty.''], 0, Returned)
   \<and> DumpDir 1 (os_unlistable ERROR_ACCESS_DENIED) ''C:'' 0 =
     Some ([WriteNewline, WriteNormal (entering_dir_line ''C:''),
            WriteNewline, WriteNormal ''Access denied to directory.''], 0, Returned)
   \<and> DumpDir 1 (os_unlistable 3) ''C:'' 0 =
     Some ([WriteNewline, WriteNormal (entering_dir_line ''C:'')], 0, Threw (Error (Some 3)))"
proof -
  have p: "''C:'' \<noteq> []"
    by simp
  have f: "FindFiles (os_unlistable code) (strip_trailing_backslash ''C:'' @ backslash @ ''*'') = Inl code"
    for code
    by (simp add: os_unlistable_def)
  have c: "(3 :: dword) \<noteq> ERROR_FILE_NOT_FOUND" "(3 :: dword) \<noteq> ERROR_ACCESS_DENIED"
    by (simp_all add: ERROR_FILE_NOT_FOUND_def ERROR_ACCESS_DENIED_def)
  from C5_enumeration_start_failure [OF p f, of ERROR_FILE_NOT_FOUND 0 0]
  have a: "DumpDir 1 (os_unlistable ERROR_FILE_NOT_FOUND) ''C:'' 0 =
     Some (report (entering_dir_line ''C:'') @ report ''Directory is empty.'', 0, Returned)"
    by simp
  from C5_enumeration_start_failure [OF p f, of ERROR_ACCESS_DENIED 0 0]
  have b: "DumpDir 1 (os_unlistable ERROR_ACCESS_DENIED) ''C:'' 0 =
     Some (report (entering_dir_line ''C:'') @ report ''Access denied to directory.'', 0, Returned)"
    by simp
  from C5_enumeration_start_failure [OF p f, of 3 0 0] c
  have d: "DumpDir 1 (os_unlistable 3) ''C:'' 0 =
     Some (report (entering_dir_line ''C:''), 0, Threw (Error (Some 3)))"
    by simp
  from a b d show ?thesis
    by (simp add: report_def)
qed

text \<open>
  Claim C6. For an entry that is not a directory the task is the entry's path. If the
  pool refuses the next \<open>k\<close> calls of \<open>QueueTask\<close> and accepts the one after, the round
  of the loop is: the announcement, \<open>k\<close> times \<open>WaitForSlot\<close> and a refused
  \<open>QueueTask\<close>, then \<open>WaitForSlot\<close> and the accepted \<open>QueueTask\<close>; the accepted call
  occurs once in it, and the remaining entries are processed after it, from call
  \<open>n + k + 1\<close> on. If the pool never accepts, the loop does not come back with any
  fuel: the walker does not move to the next entry.
\<close>

theorem C6_submit_until_accepted:
  assumes "cur_file \<noteq> ''.''" and "cur_file \<noteq> ''..''"
    and "IsDirectory os (MakeExtendedPath os (path_real @ backslash @ cur_file)) = Inr False"
  shows "((\<forall>j<k. \<not> QueueTask_result os (n + j)) \<and> QueueTask_result os (n + k) \<and> k < fuel \<longrightarrow>
            DumpEntries walk fuel os path_real (cur_file # rest) n =
              after (report (current_path_line (MakeExtendedPath os (path_real @ backslash @ cur_file)))
                       @ concat (replicate k [WaitForSlot,
                           QueueTask (MakeExtendedPath os (path_real @ backslash @ cur_file)) False])
                       @ [WaitForSlot, QueueTask (MakeExtendedPath os (path_real @ backslash @ cur_file)) True])
                (DumpEntries walk fuel os path_real rest (Suc (n + k)))
            \<and> count_list
                 (report (current_path_line (MakeExtendedPath os (path_real @ backslash @ cur_file)))
                    @ concat (replicate k [WaitForSlot,
                        QueueTask (MakeExtendedPath os (path_real @ backslash @ cur_file)) False])
                    @ [WaitForSlot, QueueTask (MakeExtendedPath os (path_real @ backslash @ cur_file)) True])
                 (QueueTask (MakeExtendedPath os (path_real @ backslash @ cur_file)) True) = 1)
       \<and> ((\<forall>j. \<not> QueueTask_result os (n + j)) \<longrightarrow>
            DumpEntries walk fuel os path_real (cur_file # rest) n = None)"
proof -
  let ?cur = "MakeExtendedPath os (path_real @ backslash @ cur_file)"
  have entry: "DumpEntry walk fuel os path_real cur_file n =
      after (report (current_path_line ?cur)) (QueueLoop fuel os ?cur n)"
    using assms by (rule DumpEntry_not_directory)
  have accepted: "DumpEntries walk fuel os path_real (cur_file # rest) n =
      after (report (current_path_line ?cur)
               @ concat (replicate k [WaitForSlot, QueueTask ?cur False])
               @ [WaitForSlot, QueueTask ?cur True])
        (DumpEntries walk fuel os path_real rest (Suc (n + k)))"
    if "\<forall>j<k. \<not> QueueTask_result os (n + j)" "QueueTask_result os (n + k)" "k < fuel"
  proof -
    from that have "QueueLoop fuel os ?cur n =
        Some (concat (replicate k [WaitForSlot, QueueTask ?cur False])
                @ [WaitForSlot, QueueTask ?cur True], Suc (n + k), Returned)"
      by (rule QueueLoop_accepted)
    with entry have "DumpEntry walk fuel os path_real cur_file n =
        Some (report (current_path_line ?cur)
                @ concat (replicate k [WaitForSlot, QueueTask ?cur False])
                @ [WaitForSlot, QueueTask ?cur True], Suc (n + k), Returned)"
      by simp
    then show ?thesis
      by (rule DumpEntries_Cons_Returned)
  qed
  have once: "count_list
       (report (current_path_line ?cur) @ concat (replicate k [WaitForSlot, QueueTask ?cur False])
          @ [WaitForSlot, QueueTask ?cur True]) (QueueTask ?cur True) = 1"
    by (simp add: report_def count_list_rejections)
  have never: "DumpEntries walk fuel os path_real (cur_file # rest) n = None"
    if "\<forall>j. \<not> QueueTask_result os (n + j)"
  proof -
    from that have "QueueLoop fuel os ?cur n = None"
      by (rule QueueLoop_never)
    with entry have "DumpEntry walk fuel os path_real cur_file n = None"
      by simp
    then show ?thesis
      by (rule DumpEntries_Cons_None)
  qed
  from accepted once never show ?thesis
    by blast
qed

theorem C6_witness:
  "IsDirectory os_cycle (MakeExtendedPath os_cycle (''C:'' @ backslash @ ''a.exe'')) = Inr False
   \<and> \<not> QueueTask_result os_cycle 0 \<and> QueueTask_result os_cycle 1
   \<and> DumpEntries (DumpDir 3 os_cycle) 4 os_cycle ''C:'' [''a.exe'', ''loop''] 0 =
       Some ([WriteNewline, WriteNormal (current_path_line (''C:'' @ backslash @ ''a.exe'')),
              WaitForSlot, QueueTask (''C:'' @ backslash @ ''a.exe'') False,
              WaitForSlot, QueueTask (''C:'' @ backslash @ ''a.exe'') True,
              WriteNewline, WriteNormal (current_path_line (''C:'' @ backslash @ ''loop'')),
              WriteNewline, WriteNormal ''Skipping symlink.''], 2, Returned)
   \<and> DumpEntries (DumpDir 3 os_cycle) 4 (os_cycle\<lparr>QueueTask_result := \<lambda>k. False\<rparr>) ''C:''
        [''a.exe'', ''loop''] 0 = None"
proof -
  let ?walk = "DumpDir 3 os_cycle"
  let ?never = "os_cycle\<lparr>QueueTask_result := \<lambda>k. False\<rparr>"
  have names: "''a.exe'' \<noteq> ''.''" "''a.exe'' \<noteq> ''..''"
    by simp_all
  have plain: "IsDirectory os_cycle (MakeExtendedPath os_cycle (''C:'' @ backslash @ ''a.exe'')) = Inr False"
    "IsDirectory ?never (MakeExtendedPath ?never (''C:'' @ backslash @ ''a.exe'')) = Inr False"
    by code_simp+
  have pool: "\<forall>j<1. \<not> QueueTask_result os_cycle (0 + j)" "QueueTask_result os_cycle (0 + 1)" "(1::nat) < 4"
    by (simp_all add: os_cycle_def)
  have refuses: "\<forall>j. \<not> QueueTask_result ?never (0 + j)"
    by simp
  have path: "MakeExtendedPath os_cycle p = p" for p
    by (simp add: os_cycle_def)
  have rest: "DumpEntries ?walk 4 os_cycle ''C:'' [''loop''] (Suc (0 + 1)) =
      Some ([WriteNewline, WriteNormal (current_path_line (''C:'' @ backslash @ ''loop'')),
             WriteNewline, WriteNormal ''Skipping symlink.''], 2, Returned)"
    by code_simp
  from C6_submit_until_accepted [OF names plain(1), where k = 1 and n = 0 and fuel = 4
      and walk = ?walk and rest = "[''loop'']"] pool
  have "DumpEntries ?walk 4 os_cycle ''C:'' [''a.exe'', ''loop''] 0 =
      after (report (current_path_line (MakeExtendedPath os_cycle (''C:'' @ backslash @ ''a.exe'')))
               @ concat (replicate 1 [WaitForSlot,
                   QueueTask (MakeExtendedPath os_cycle (''C:'' @ backslash @ ''a.exe'')) False])
               @ [WaitForSlot, QueueTask (MakeExtendedPath os_cycle (''C:'' @ backslash @ ''a.exe'')) True])
        (DumpEntries ?walk 4 os_cycle ''C:'' [''loop''] (Suc (0 + 1)))"
    by blast
  then have a: "DumpEntries ?walk 4 os_cycle ''C:'' [''a.exe'', ''loop''] 0 =
       Some ([WriteNewline, WriteNormal (current_path_line (''C:'' @ backslash @ ''a.exe'')),
              WaitForSlot, QueueTask (''C:'' @ backslash @ ''a.exe'') False,
              WaitForSlot, QueueTask (''C:'' @ backslash @ ''a.exe'') True,
              WriteNewline, WriteNormal (current_path_line (''C:'' @ backslash @ ''loop'')),
              WriteNewline, WriteNormal ''Skipping symlink.''], 2, Returned)"
    unfolding path rest by (simp add: report_def)
  from C6_submit_until_accepted [OF names plain(2), where n = 0 and fuel = 4
      and walk = ?walk and rest = "[''loop'']"] refuses
  have b: "DumpEntries ?walk 4 ?never ''C:'' [''a.exe'', ''loop''] 0 = None"
    by blast
  from pool have "\<not> QueueTask_result os_cycle 0" "QueueTask_result os_cycle 1"
    by simp_all
  with plain(1) a b show ?thesis
    by blast
qed

text \<open>
  Claim C7, as stated, fails on an entry whose error is thrown again. Here the
  attribute query on \<open>broken\<close> throws \<open>hadesmem::Error\<close> with code 87; the handler
  rethrows it (line 241) and the walk of the directory ends with that exception. The
  entry was produced by the listing and announced, and it is neither recursed into,
  nor submitted, nor reported as skipped.
\<close>

theorem C7_counterexample:
  "FindFiles (os_errors 87) (strip_trailing_backslash ''C:'' @ backslash @ ''*'')
     = Inr (''.'', [''..'', ''locked'', ''broken'', ''ok.exe''], ERROR_NO_MORE_FILES)
   \<and> DumpDir 2 (os_errors 87) ''C:'' 0 =
       Some ([WriteNewline, WriteNormal (entering_dir_line ''C:''),
              WriteNewline, WriteNormal (current_path_line (''C:'' @ backslash @ ''locked'')),
              WriteNewline, WriteNormal ''Sharing violation.'',
              WriteNewline, WriteNormal (current_path_line (''C:'' @ backslash @ ''broken''))],
             0, Threw (Error (Some 87)))
   \<and> \<not> entry_accounted (os_errors 87) ''C:'' ''broken''
         [WriteNewline, WriteNormal (current_path_line (''C:'' @ backslash @ ''broken''))]"
  by code_simp

text \<open>
  Claim C7, amended. \<open>.\<close> and \<open>..\<close> are passed over: nothing is written and nothing
  is queued for them. When the walk of a listed directory comes back, its events are
  the announcement of the directory followed by one segment per entry that the loop
  took from the listing, in order. Either the loop took every entry and each is
  accounted for: recursed into, accepted by the pool, or reported with a skip line.
  Or the loop stopped at an entry \<open>k\<close>: the entries before it are accounted for, and
  entry \<open>k\<close> was announced and left the walk with an exception that is not one of
  the three the handler reports, which is how the walk ends. No round ends without one
  of these.
\<close>

theorem C7_entries_accounted:
  assumes "path \<noteq> []"
    and "FindFiles os (strip_trailing_backslash path @ backslash @ ''*'') = Inr (first, others, last_error)"
    and "DumpDir (Suc fuel) os path n = Some (ev, n', out)"
  shows "DumpEntry (DumpDir fuel os) fuel os (strip_trailing_backslash path) ''.'' n = Some ([], n, Returned)
       \<and> DumpEntry (DumpDir fuel os) fuel os (strip_trailing_backslash path) ''..'' n = Some ([], n, Returned)
       \<and> (\<exists>segs. ev = report (entering_dir_line path) @ concat segs \<and>
            (list_all2 (entry_accounted os (strip_trailing_backslash path)) (first # others) segs
             \<or> (\<exists>k<length (first # others). length segs = Suc k
                  \<and> list_all2 (entry_accounted os (strip_trailing_backslash path))
                       (take k (first # others)) (take k segs)
                  \<and> entry_raised os (strip_trailing_backslash path) ((first # others) ! k) (segs ! k) out)))"
proof -
  let ?path_real = "strip_trailing_backslash path"
  from DumpDir_listing_cases [OF assms] obtain ev0 out0 where
    ev: "ev = report (entering_dir_line path) @ ev0"
    and loop: "DumpEntries (DumpDir fuel os) fuel os ?path_real (first # others) n = Some (ev0, n', out0)"
    and out: "if out0 = Returned
         then out = (if last_error = ERROR_NO_MORE_FILES then Returned
                     else Threw (Error (Some last_error)))
         else out = out0"
    by blast
  from DumpEntries_accounted [OF loop] obtain segs where
    s: "ev0 = concat segs"
      "out0 = Returned \<longrightarrow> list_all2 (entry_accounted os ?path_real) (first # others) segs"
      "out0 \<noteq> Returned \<longrightarrow>
        (\<exists>k<length (first # others). length segs = Suc k
           \<and> list_all2 (entry_accounted os ?path_real) (take k (first # others)) (take k segs)
           \<and> entry_raised os ?path_real ((first # others) ! k) (segs ! k) out0)"
    by blast
  have "list_all2 (entry_accounted os ?path_real) (first # others) segs
      \<or> (\<exists>k<length (first # others). length segs = Suc k
           \<and> list_all2 (entry_accounted os ?path_real) (take k (first # others)) (take k segs)
           \<and> entry_raised os ?path_real ((first # others) ! k) (segs ! k) out)"
  proof (cases "out0 = Returned")
    case True
    with s(2) show ?thesis by simp
  next
    case False
    with out have "out = out0" by simp
    with False s(3) show ?thesis by simp
  qed
  with ev s(1) have "\<exists>segs. ev = report (entering_dir_line path) @ concat segs \<and>
            (list_all2 (entry_accounted os ?path_real) (first # others) segs
             \<or> (\<exists>k<length (first # others). length segs = Suc k
                  \<and> list_all2 (entry_accounted os ?path_real) (take k (first # others)) (take k segs)
                  \<and> entry_raised os ?path_real ((first # others) ! k) (segs ! k) out))"
    by blast
  then show ?thesis
    by (simp add: DumpEntry_dot)
qed

theorem C7_witness:
  "''C:'' \<noteq> []
   \<and> FindFiles os_cycle (strip_trailing_backslash ''C:'' @ backslash @ ''*'')
       = Inr (''.'', [''..'', ''a.exe'', ''loop'', ''sub''], ERROR_NO_MORE_FILES)
   \<and> DumpDir (Suc 3) os_cycle ''C:'' 0 =
       Some ([WriteNewline, WriteNormal (entering_dir_line ''C:''),
              WriteNewline, WriteNormal (current_path_line (''C:'' @ backslash @ ''a.exe'')),
              WaitForSlot, QueueTask (''C:'' @ backslash @ ''a.exe'') False,
              WaitForSlot, QueueTask (''C:'' @ backslash @ ''a.exe'') True,
              WriteNewline, WriteNormal (current_path_line (''C:'' @ backslash @ ''loop'')),
              WriteNewline, WriteNormal ''Skipping symlink.'',
              WriteNewline, WriteNormal (current_path_line (''C:'' @ backslash @ ''sub'')),
              WriteNewline, WriteNormal (entering_dir_line (''C:'' @ backslash @ ''sub'')),
              WriteNewline,
              WriteNormal (current_path_line (''C:'' @ backslash @ ''sub'' @ backslash @ ''b.exe'')),
              WaitForSlot, QueueTask (''C:'' @ backslash @ ''sub'' @ backslash @ ''b.exe'') False,
              WaitForSlot, QueueTask (''C:'' @ backslash @ ''sub'' @ backslash @ ''b.exe'') True,
              WriteNewline,
              WriteNormal (current_path_line (''C:'' @ backslash @ ''sub'' @ backslash @ ''up'')),
              WriteNewline, WriteNormal ''Skipping symlink.''],
             4, Returned)
   \<and> (\<exists>segs.
         [WriteNewline, WriteNormal (entering_dir_line ''C:''),
          WriteNewline, WriteNormal (current_path_line (''C:'' @ backslash @ ''a.exe'')),
          WaitForSlot, QueueTask (''C:'' @ backslash @ ''a.exe'') False,
          WaitForSlot, QueueTask (''C:'' @ backslash @ ''a.exe'') True,
          WriteNewline, WriteNormal (current_path_line (''C:'' @ backslash @ ''loop'')),
          WriteNewline, WriteNormal ''Skipping symlink.'',
          WriteNewline, WriteNormal (current_path_line (''C:'' @ backslash @ ''sub'')),
          WriteNewline, WriteNormal (entering_dir_line (''C:'' @ backslash @ ''sub'')),
          WriteNewline,
          WriteNormal (current_path_line (''C:'' @ backslash @ ''sub'' @ backslash @ ''b.exe'')),
          WaitForSlot, QueueTask (''C:'' @ backslash @ ''sub'' @ backslash @ ''b.exe'') False,
          WaitForSlot, QueueTask (''C:'' @ backslash @ ''sub'' @ backslash @ ''b.exe'') True,
          WriteNewline,
          WriteNormal (current_path_line (''C:'' @ backslash @ ''sub'' @ backslash @ ''up'')),
          WriteNewline, WriteNormal ''Skipping symlink.'']
           = report (entering_dir_line ''C:'') @ concat segs
         \<and> list_all2 (entry_accounted os_cycle (strip_trailing_backslash ''C:''))
              [''.'', ''..'', ''a.exe'', ''loop'', ''sub''] segs)"
proof -
  have p: "''C:'' \<noteq> []"
    by simp
  have f: "FindFiles os_cycle (strip_trailing_backslash ''C:'' @ backslash @ ''*'')
       = Inr (''.'', [''..'', ''a.exe'', ''loop'', ''sub''], ERROR_NO_MORE_FILES)"
    by code_simp
  have run: "DumpDir (Suc 3) os_cycle ''C:'' 0 =
       Some ([WriteNewline, WriteNormal (entering_dir_line ''C:''),
              WriteNewline, WriteNormal (current_path_line (''C:'' @ backslash @ ''a.exe'')),
              WaitForSlot, QueueTask (''C:'' @ backslash @ ''a.exe'') False,
              WaitForSlot, QueueTask (''C:'' @ backslash @ ''a.exe'') True,
              WriteNewline, WriteNormal (current_path_line (''C:'' @ backslash @ ''loop'')),
              WriteNewline, WriteNormal ''Skipping symlink.'',
              WriteNewline, WriteNormal (current_path_line (''C:'' @ backslash @ ''sub'')),
              WriteNewline, WriteNormal (entering_dir_line (''C:'' @ backslash @ ''sub'')),
              WriteNewline,
              WriteNormal (current_path_line (''C:'' @ backslash @ ''sub'' @ backslash @ ''b.exe'')),
              WaitForSlot, QueueTask (''C:'' @ backslash @ ''sub'' @ backslash @ ''b.exe'') False,
              WaitForSlot, QueueTask (''C:'' @ backslash @ ''sub'' @ backslash @ ''b.exe'') True,
              WriteNewline,
              WriteNormal (current_path_line (''C:'' @ backslash @ ''sub'' @ backslash @ ''up'')),
              WriteNewline, WriteNormal ''Skipping symlink.''],
             4, Returned)"
    by code_simp
  have "\<not> entry_raised os p c seg Returned" for os p c seg
    by (simp add: entry_raised_def)
  with C7_entries_accounted [OF p f run] p f run show ?thesis
    by blast
qed

end
